theory Spec2Isabelle
  imports Complex_Main
begin

section \<open>The subscription coordinator \<open>SubDao\<close> of \<open>internal/service/dao.go\<close>\<close>

text \<open>
  \<open>SubDao\<close> (lines 436-566) talks to collaborators whose code is not part of the
  file: the order store (\<open>sub.FindOne\<close>, \<open>ds.*\<close>), the notification bus
  (\<open>pubsub\<close>), the payment client (\<open>point.Pay\<close>), the push gateway
  (\<open>notifyGateway.Notify\<close>) and the caller's context. The function has no loop, so every
  call site runs at most once in one call; the environment \<open>env\<close> below therefore gives
  the answer of each collaborator per call site (the source line, where one collaborator
  has several sites) and per argument. What the call does is recorded, in order, in a
  trace of events; the Go locals and named results are the fields of \<open>locals\<close>.
\<close>

subsection \<open>Errors\<close>

text \<open>
  Go \<open>error\<close> values. \<open>ErrNoDocuments\<close> is \<open>mongo.ErrNoDocuments\<close>, \<open>Canceled\<close> and
  \<open>DeadlineExceeded\<close> are the two errors of package \<open>context\<close>; \<open>Wrapped\<close> is an error
  that wraps another, which \<open>errors.Is\<close> looks through. A nil error is \<open>None\<close>.
\<close>

datatype error =
    ErrNoDocuments
  | Canceled
  | DeadlineExceeded
  | Failure string
  | Wrapped string error

fun errors_Is :: "error \<Rightarrow> error \<Rightarrow> bool" where
  "errors_Is (Wrapped m e) t = (Wrapped m e = t \<or> errors_Is e t)"
| "errors_Is e t = (e = t)"

subsection \<open>Records of the data model\<close>

datatype ObjectID = ObjectID (Hex: string)

text \<open>
  Modelled from the spec: the declaration of \<open>model.DaoSubscribeT\<close> (package
  \<open>internal/model\<close>) is missing. Section 3 of the specification lists the statuses
  \<open>Created\<close>, \<open>Submitted\<close>, \<open>Success\<close>, \<open>Failed\<close> and \<open>Cancelled\<close>; the source names
  only \<open>DaoSubscribeSubmit\<close>. Which of them is Go's zero value is not known; it is the
  field \<open>zeroStatus\<close> of the configuration.
\<close>

datatype DaoSubscribeT =
    DaoSubscribeCreated
  | DaoSubscribeSubmit
  | DaoSubscribeSuccess
  | DaoSubscribeFailed
  | DaoSubscribeCancelled

text \<open>The fields of \<open>model.Dao\<close>, \<open>model.User\<close> and \<open>model.DaoSubscribe\<close> that \<open>SubDao\<close> reads.\<close>

record Dao =
  ID :: ObjectID
  Address :: string
  Name :: string
  Price :: string

record User =
  UserID :: ObjectID
  Nickname :: string
  UserAddress :: string

record DaoSubscribe =
  SubID :: ObjectID
  TxID :: string
  Status :: DaoSubscribeT

record PayRequest =
  FromObject :: string
  ToSubject :: string
  Amount :: string
  Comment :: string
  Channel :: string
  ReturnURI :: string
  BindOrder :: string

text \<open>
  \<open>fmt.Sprintf\<close> and \<open>logrus.Errorf\<close> are kept as the format string with its arguments,
  so that the number printed by \<open>%f\<close> is the \<open>float64\<close> argument itself.
\<close>

datatype fmt_arg = S string | F real | E error

datatype formatted = Sprintf string "fmt_arg list"

datatype FromTypeT = ORANGE | USER

record PushNotifyRequest =
  IsSave :: bool
  NetWorkId :: string
  Region :: string
  Title :: string
  Content :: formatted
  From :: string
  FromType :: FromTypeT
  To :: string

text \<open>A \<open>*psub.Notify\<close> that is not nil; the nil pointer is \<open>None\<close>.\<close>

datatype psub_Notify = Handle nat

text \<open>
  What arrives on \<open>notify.Ch\<close>: a \<open>core.DaoSubscribeT\<close>, or any other value (the nil of a
  closed channel included), on which the type assertion of line 503 panics.
\<close>

datatype chan_val = StatusVal DaoSubscribeT | OtherVal

text \<open>
  The \<open>select\<close> of lines 499-502 blocks until one of its two channels is ready; which
  one, if any, is decided outside the call (when both are ready Go picks either).
\<close>

datatype ready = CtxReady | ChReady chan_val | NeverReady

text \<open>
  The caller's context: \<open>ctxErr\<close> is what \<open>ctx.Err()\<close> returns once \<open>ctx.Done()\<close> is
  closed, which package \<open>context\<close> guarantees to be non-nil.
\<close>

record Context =
  ctxErr :: error

subsection \<open>The environment\<close>

text \<open>
  The values of package \<open>conf\<close> that \<open>SubDao\<close> reads; the configuration and the database
  handle of \<open>conf.MustMongoDB()\<close> are taken as initialised.
\<close>

record conf =
  PointSetting_Callback :: string
  ExternalAppSetting_NetworkID :: string
  ExternalAppSetting_Region :: string
  zeroStatus :: DaoSubscribeT

text \<open>
  \<open>createOrder\<close> is the part of \<open>ds.SubscribeDAO\<close> that runs before the callback (see
  \<open>SubscribeDAO\<close> below). \<open>MustFloat64\<close> is \<open>convert.StrTo(s).MustFloat64()\<close> of
  \<open>pkg/convert\<close>, which is not in the file: it is a parameter, taken to give a number
  for every string. The quotient by 1000 is taken in the reals; the rounding of
  \<open>float64\<close> is outside the model. The lookups give Go's pair of a pointer and an
  error as it is: either component may be nil.
\<close>

record env =
  FindOne :: "string \<Rightarrow> ObjectID \<Rightarrow> error option \<times> DaoSubscribe"
  createOrder :: "string \<Rightarrow> ObjectID \<Rightarrow> error + (string \<times> Dao)"
  NewSubscribe :: "string \<Rightarrow> psub_Notify option \<times> error option"
  Pay :: "PayRequest \<Rightarrow> string \<times> error option"
  UpdateSubscribeDAOTxID :: "string \<Rightarrow> string \<Rightarrow> error option"
  select_ready :: "psub_Notify \<Rightarrow> ready"
  GetDao :: "ObjectID \<Rightarrow> Dao option \<times> error option"
  GetUserByAddress :: "nat \<Rightarrow> string \<Rightarrow> User option \<times> error option"
  Notify :: "nat \<Rightarrow> PushNotifyRequest \<Rightarrow> error option"
  MustFloat64 :: "string \<Rightarrow> real"
  config :: conf

subsection \<open>Events, locals and outcomes\<close>

datatype event =
    CallFindOne string ObjectID
  | CallSubscribeDAO string ObjectID
  | CallNewSubscribe string
  | CallPay PayRequest
  | CallUpdateSubscribeDAOTxID string string
  | Errorf string "fmt_arg list"
  | Wait
  | CtxDone
  | Received chan_val
  | CallGetDao ObjectID
  | CallGetUserByAddress nat string
  | CallNotify nat PushNotifyRequest
  | CallCancel psub_Notify

text \<open>
  The variables of lines 437-448 and the named results \<open>txID\<close>, \<open>status\<close>, \<open>err\<close> of
  line 436.
\<close>

record locals =
  oid :: string
  notify :: "psub_Notify option"
  toAddress :: string
  price :: real
  txID :: string
  status :: DaoSubscribeT
  err :: "error option"

text \<open>
  How a piece of the body ends: it falls through to the next statement, executes a
  \<open>return\<close>, panics, or blocks for ever in the \<open>select\<close>. Each piece gives, besides,
  the locals as it leaves them and the events it has performed, in order.
\<close>

datatype ctl = Next | Return | Panic | Block

datatype outcome =
    Returned string DaoSubscribeT "error option"
  | Panicked
  | Blocked

record run =
  outcome :: outcome
  events :: "event list"

subsection \<open>The body of \<open>SubDao\<close>\<close>

text \<open>
  The closure of lines 459-479, which \<open>ds.SubscribeDAO\<close> calls with the new order's
  identifier and the community. It assigns the captured variables \<open>oid\<close>, \<open>notify\<close>,
  \<open>err\<close>, \<open>toAddress\<close>, \<open>price\<close> and \<open>txID\<close>, and returns \<open>err\<close>.
\<close>

definition callback ::
  "env \<Rightarrow> string \<Rightarrow> string \<Rightarrow> Dao \<Rightarrow> locals \<Rightarrow> error option \<times> locals \<times> event list" where
  "callback env address orderID dao s =
     (let s1 = s\<lparr>oid := orderID\<rparr>;
          (n, e) = NewSubscribe env orderID;
          s2 = s1\<lparr>notify := n, err := e\<rparr>
      in if e \<noteq> None then (e, s2, [CallNewSubscribe orderID])
         else
           (let s3 = s2\<lparr>toAddress := Address dao,
                        price := MustFloat64 env (Price dao) / 1000\<rparr>;
                req = \<lparr>FromObject = address,
                       ToSubject = toAddress s3,
                       Amount = Price dao,
                       Comment = '''',
                       Channel = ''sub_dao'',
                       ReturnURI = PointSetting_Callback (config env)
                         @ ''/pay/notify?method=sub_dao&order_id='' @ orderID,
                       BindOrder = orderID\<rparr>;
                (t, e') = Pay env req;
                s4 = s3\<lparr>txID := t, err := e'\<rparr>
            in (e', s4, [CallNewSubscribe orderID, CallPay req])))"

text \<open>
  Modelled from the spec: \<open>ds.SubscribeDAO\<close> (the data-access layer, not in
  \<open>internal/service/dao.go\<close>). Section 6 gives it as
  \<open>CreateOrderAndInitiatePayment(subscriber, community, onInitiated)\<close>, whose callback
  "is invoked inside the creation transaction"; section 4.1 step 2 says that it persists
  the order and then runs the payment step, and that an initiator failure is propagated;
  section 7 says that a lookup failure is surfaced with no order created. So: the store's
  own part \<open>createOrder\<close> either fails, and the callback is not run, or yields the new
  order's identifier and the community, the callback is run once with them and its
  error is the result.
\<close>

definition SubscribeDAO ::
  "env \<Rightarrow> string \<Rightarrow> ObjectID
     \<Rightarrow> (string \<Rightarrow> Dao \<Rightarrow> locals \<Rightarrow> error option \<times> locals \<times> event list)
     \<Rightarrow> locals \<Rightarrow> error option \<times> locals \<times> event list" where
  "SubscribeDAO env address daoID fn s =
     (case createOrder env address daoID of
        Inl e \<Rightarrow> (Some e, s, [CallSubscribeDAO address daoID])
      | Inr (orderID, dao) \<Rightarrow>
          (let (r, s', es) = fn orderID dao s
           in (r, s', CallSubscribeDAO address daoID # es)))"

text \<open>\<open>logrus.Errorf\<close> after a call whose error is not nil (lines 522-524, 537-539, 561-563).\<close>

definition log_subscription_err :: "error option \<Rightarrow> event list" where
  "log_subscription_err r =
     (case r of None \<Rightarrow> [] | Some e \<Rightarrow> [Errorf ''subscription err:%s'' [E e]])"

text \<open>Lines 483-487: the update's error is logged and then dropped.\<close>

definition log_update_err :: "string \<Rightarrow> string \<Rightarrow> error option \<Rightarrow> event list" where
  "log_update_err k t r =
     (case r of
        None \<Rightarrow> []
      | Some e \<Rightarrow>
          [Errorf ''ds.UpdateSubscribeDAOTxID order_id:%s tx_id:%s err:%s'' [S k, S t, E e]])"

text \<open>
  Lines 450-497: look the order up, then create it and start the payment, or take the
  stored transaction and status and, for a submitted order, subscribe to it again.
\<close>

definition SubDao_order ::
  "env \<Rightarrow> ObjectID \<Rightarrow> string \<Rightarrow> locals \<Rightarrow> ctl \<times> locals \<times> event list" where
  "SubDao_order env daoID address s0 =
     (let (e, sub) = FindOne env address daoID;
          s = s0\<lparr>err := e\<rparr>
      in case e of
           Some e' \<Rightarrow>
             if \<not> errors_Is e' ErrNoDocuments then (Return, s, [CallFindOne address daoID])
             else
               (let (r, s1, es) = SubscribeDAO env address daoID (callback env address) s;
                    s2 = s1\<lparr>err := r\<rparr>
                in if r \<noteq> None then (Return, s2, CallFindOne address daoID # es)
                   else
                     (let e2 = UpdateSubscribeDAOTxID env (oid s2) (txID s2)
                      in (Next, s2,
                          CallFindOne address daoID # es
                          @ [CallUpdateSubscribeDAOTxID (oid s2) (txID s2)]
                          @ log_update_err (oid s2) (txID s2) e2)))
         | None \<Rightarrow>
             (let s1 = s\<lparr>txID := TxID sub, status := Status sub\<rparr>
              in if status s1 \<noteq> DaoSubscribeSubmit
                 then (Return, s1, [CallFindOne address daoID])
                 else
                   (let s2 = s1\<lparr>oid := Hex (SubID sub)\<rparr>;
                        (n, _) = NewSubscribe env (oid s2);
                        s3 = s2\<lparr>notify := n\<rparr>
                    in (Next, s3, [CallFindOne address daoID, CallNewSubscribe (oid s2)]))))"

text \<open>
  Lines 504-539, after a status has been received. The \<open>err\<close> of these lines is a new
  variable declared by \<open>:=\<close> in the case clause, so neither the named result \<open>err\<close> nor
  any other variable of the function is assigned; \<open>price\<close> is read. A nil \<open>d\<close>, \<open>user\<close>
  or \<open>a\<close> is dereferenced at lines 508, 519 and 534.
\<close>

definition SubDao_dispatch ::
  "env \<Rightarrow> ObjectID \<Rightarrow> string \<Rightarrow> locals \<Rightarrow> ctl \<times> event list" where
  "SubDao_dispatch env daoID address s =
     (let (d, e1) = GetDao env daoID
      in case d of
           None \<Rightarrow> (Panic, [CallGetDao daoID])
         | Some d \<Rightarrow>
             (let (a, e2) = GetUserByAddress env 508 (Address d);
                  (user, e3) = GetUserByAddress env 509 address;
                  es3 = [CallGetDao daoID,
                         CallGetUserByAddress 508 (Address d),
                         CallGetUserByAddress 509 address];
                  content = Sprintf ''Subscribe to %s dao successfully, pay %f FavT''
                              [S (Name d), F (price s)]
              in case user of
                   None \<Rightarrow> (Panic, es3)
                 | Some user \<Rightarrow>
                     (let notifyRequest =
                            \<lparr>IsSave = True,
                             NetWorkId = ExternalAppSetting_NetworkID (config env),
                             Region = ExternalAppSetting_Region (config env),
                             Title = ''Transaction'',
                             Content = content,
                             From = ''transaction'',
                             FromType = ORANGE,
                             To = Hex (UserID user)\<rparr>;
                          e4 = Notify env 521 notifyRequest;
                          es4 = es3 @ [CallNotify 521 notifyRequest] @ log_subscription_err e4;
                          content2 =
                            Sprintf ''%s(%s) subscribed to your dao received %f FavT''
                              [S (Nickname user), S (UserAddress user), F (price s)]
                      in case a of
                           None \<Rightarrow> (Panic, es4)
                         | Some a \<Rightarrow>
                             (let notifyRequest2 =
                                    \<lparr>IsSave = True,
                                     NetWorkId = ExternalAppSetting_NetworkID (config env),
                                     Region = ExternalAppSetting_Region (config env),
                                     Title = ''Transaction'',
                                     Content = content2,
                                     From = ''transaction'',
                                     FromType = ORANGE,
                                     To = Hex (UserID a)\<rparr>;
                                  e5 = Notify env 536 notifyRequest2
                              in (Next,
                                  es4 @ [CallNotify 536 notifyRequest2]
                                  @ log_subscription_err e5)))))"

text \<open>
  Lines 498-540: the \<open>select\<close>. Its channel operands are evaluated on entry, so a nil
  \<open>notify\<close> panics at \<open>notify.Ch\<close> whatever the context's state.
\<close>

definition SubDao_wait ::
  "env \<Rightarrow> Context \<Rightarrow> ObjectID \<Rightarrow> string \<Rightarrow> locals \<Rightarrow> ctl \<times> locals \<times> event list" where
  "SubDao_wait env ctx daoID address s =
     (case notify s of
        None \<Rightarrow> (Panic, s, [Wait])
      | Some h \<Rightarrow>
          (case select_ready env h of
             NeverReady \<Rightarrow> (Block, s, [Wait])
           | CtxReady \<Rightarrow> (Next, s\<lparr>err := Some (ctxErr ctx)\<rparr>, [Wait, CtxDone])
           | ChReady val \<Rightarrow>
               (case val of
                  OtherVal \<Rightarrow> (Panic, s, [Wait, Received val])
                | StatusVal v \<Rightarrow>
                    (let s1 = s\<lparr>status := v\<rparr>;
                         (c, es) = SubDao_dispatch env daoID address s1
                     in (c, s1, Wait # Received val # es)))))"

text \<open>
  Lines 542-565. Inside the \<open>if\<close>, \<open>err\<close> is again a new variable; line 546 returns it
  explicitly, the bare \<open>return\<close> of line 565 returns the named result.
\<close>

definition SubDao_finish :: "env \<Rightarrow> string \<Rightarrow> locals \<Rightarrow> ctl \<times> locals \<times> event list" where
  "SubDao_finish env address s =
     (if err s \<noteq> None then (Return, s, [])
      else
        (let (toUser, e) = GetUserByAddress env 543 (toAddress s);
             es1 = [CallGetUserByAddress 543 (toAddress s)]
         in case e of
              Some x \<Rightarrow> (Return, s\<lparr>err := Some x\<rparr>, es1 @ [Errorf ''get user err:%s'' [E x]])
            | None \<Rightarrow>
                (let (fromUser, e2) = GetUserByAddress env 548 address;
                     es2 = es1 @ [CallGetUserByAddress 548 address]
                 in case fromUser of
                      None \<Rightarrow> (Panic, s, es2)
                    | Some fromUser \<Rightarrow>
                        (let content = Sprintf ''User %s (%s) subscribed to your dao''
                                         [S (Nickname fromUser), S (UserAddress fromUser)]
                         in case toUser of
                              None \<Rightarrow> (Panic, s, es2)
                            | Some toUser \<Rightarrow>
                                (let notifyRequest =
                                       \<lparr>IsSave = False,
                                        NetWorkId = ExternalAppSetting_NetworkID (config env),
                                        Region = ExternalAppSetting_Region (config env),
                                        Title = ''Subscription'',
                                        Content = content,
                                        From = Hex (UserID fromUser),
                                        FromType = USER,
                                        To = Hex (UserID toUser)\<rparr>;
                                     e3 = Notify env 560 notifyRequest
                                 in (Return, s,
                                     es2 @ [CallNotify 560 notifyRequest]
                                     @ log_subscription_err e3))))))"

definition SubDao_body ::
  "env \<Rightarrow> Context \<Rightarrow> ObjectID \<Rightarrow> string \<Rightarrow> locals \<Rightarrow> ctl \<times> locals \<times> event list" where
  "SubDao_body env ctx daoID address s0 =
     (let (c1, s1, es1) = SubDao_order env daoID address s0
      in if c1 \<noteq> Next then (c1, s1, es1)
         else
           (let (c2, s2, es2) = SubDao_wait env ctx daoID address s1
            in if c2 \<noteq> Next then (c2, s2, es1 @ es2)
               else
                 (let (c3, s3, es3) = SubDao_finish env address s2
                  in (c3, s3, es1 @ es2 @ es3))))"

text \<open>The zero values of the variables and named results on entry.\<close>

definition init_locals :: "env \<Rightarrow> locals" where
  "init_locals env =
     \<lparr>oid = '''', notify = None, toAddress = '''', price = 0, txID = '''',
      status = zeroStatus (config env), err = None\<rparr>"

text \<open>
  The deferred function of lines 441-445 runs when the body returns or panics; a call
  that blocks in the \<open>select\<close> never reaches it.
\<close>

definition deferred :: "locals \<Rightarrow> event list" where
  "deferred s = (case notify s of None \<Rightarrow> [] | Some h \<Rightarrow> [CallCancel h])"

definition SubDao_exit :: "ctl \<times> locals \<times> event list \<Rightarrow> run" where
  "SubDao_exit r =
     (case r of
        (c, s, es) \<Rightarrow>
          if c = Block then \<lparr>outcome = Blocked, events = es\<rparr>
          else \<lparr>outcome = (if c = Panic then Panicked
                           else Returned (txID s) (status s) (err s)),
                events = es @ deferred s\<rparr>)"

definition SubDao :: "env \<Rightarrow> Context \<Rightarrow> ObjectID \<Rightarrow> string \<Rightarrow> run" where
  "SubDao env ctx daoID address =
     SubDao_exit (SubDao_body env ctx daoID address (init_locals env))"

subsection \<open>Reading a trace\<close>

fun pay_requests :: "event list \<Rightarrow> PayRequest list" where
  "pay_requests [] = []"
| "pay_requests (CallPay r # es) = r # pay_requests es"
| "pay_requests (e # es) = pay_requests es"

fun subscribe_keys :: "event list \<Rightarrow> string list" where
  "subscribe_keys [] = []"
| "subscribe_keys (CallNewSubscribe k # es) = k # subscribe_keys es"
| "subscribe_keys (e # es) = subscribe_keys es"

fun notify_requests :: "event list \<Rightarrow> (nat \<times> PushNotifyRequest) list" where
  "notify_requests [] = []"
| "notify_requests (CallNotify n r # es) = (n, r) # notify_requests es"
| "notify_requests (e # es) = notify_requests es"

fun user_lookups :: "event list \<Rightarrow> (nat \<times> string) list" where
  "user_lookups [] = []"
| "user_lookups (CallGetUserByAddress n a # es) = (n, a) # user_lookups es"
| "user_lookups (e # es) = user_lookups es"

text \<open>The events before the first call of \<open>point.Pay\<close>, if there is one.\<close>

fun before_pay :: "event list \<Rightarrow> event list option" where
  "before_pay [] = None"
| "before_pay (CallPay r # es) = Some []"
| "before_pay (e # es) = map_option ((#) e) (before_pay es)"

text \<open>The calls that write to the order store: order creation and the transaction update.\<close>

fun is_store_write :: "event \<Rightarrow> bool" where
  "is_store_write (CallSubscribeDAO a d) = True"
| "is_store_write (CallUpdateSubscribeDAOTxID k t) = True"
| "is_store_write e = False"

text \<open>The lines written by \<open>logrus.Errorf\<close>.\<close>

fun is_errorf :: "event \<Rightarrow> bool" where
  "is_errorf (Errorf f xs) = True"
| "is_errorf e = False"

fun is_update_log :: "event \<Rightarrow> bool" where
  "is_update_log (Errorf f xs) =
     (f = ''ds.UpdateSubscribeDAOTxID order_id:%s tx_id:%s err:%s'')"
| "is_update_log e = False"

subsection \<open>A concrete environment\<close>

text \<open>
  Modelled from the spec: \<open>StrTo.MustFloat64\<close> of \<open>pkg/convert\<close> is missing. Section 6
  says that a configured price is an integer in milli-units, so a string of decimal
  digits is read in base ten; any other string reads as 0.
\<close>

fun read_digits :: "nat \<Rightarrow> string \<Rightarrow> nat option" where
  "read_digits acc [] = Some acc"
| "read_digits acc (c # cs) =
     (let n = (of_char c :: nat)
      in if 48 \<le> n \<and> n \<le> 57 then read_digits (10 * acc + (n - 48)) cs else None)"

definition read_price :: "string \<Rightarrow> real" where
  "read_price s =
     (if s = [] then 0 else case read_digits 0 s of None \<Rightarrow> 0 | Some n \<Rightarrow> real n)"

definition dao_C :: Dao where
  "dao_C = \<lparr>ID = ObjectID ''c0'', Address = ''0xowner'', Name = ''C'', Price = ''10000''\<rparr>"

definition user_of :: "string \<Rightarrow> User" where
  "user_of a = \<lparr>UserID = ObjectID (''id-'' @ a), Nickname = ''nick-'' @ a, UserAddress = a\<rparr>"

definition conf0 :: conf where
  "conf0 = \<lparr>PointSetting_Callback = ''https://cb'',
            ExternalAppSetting_NetworkID = ''1'',
            ExternalAppSetting_Region = ''r'',
            zeroStatus = DaoSubscribeCreated\<rparr>"

text \<open>The \<open>model.DaoSubscribe\<close> that a failed lookup leaves.\<close>

definition empty_sub :: DaoSubscribe where
  "empty_sub = \<lparr>SubID = ObjectID '''', TxID = '''', Status = DaoSubscribeCreated\<rparr>"

text \<open>
  The scenario of section 8 of the specification: no order yet, the community has
  price 10000, the payment returns \<open>tx-1\<close> and the bus delivers \<open>Success\<close>.
\<close>

definition env_first :: env where
  "env_first =
     \<lparr>FindOne = (\<lambda>a d. (Some ErrNoDocuments, empty_sub)),
      createOrder = (\<lambda>a d. Inr (''order-1'', dao_C)),
      NewSubscribe = (\<lambda>k. (Some (Handle 1), None)),
      Pay = (\<lambda>r. (''tx-1'', None)),
      UpdateSubscribeDAOTxID = (\<lambda>k t. None),
      select_ready = (\<lambda>h. ChReady (StatusVal DaoSubscribeSuccess)),
      GetDao = (\<lambda>i. (Some dao_C, None)),
      GetUserByAddress = (\<lambda>n a. (Some (user_of a), None)),
      Notify = (\<lambda>n r. None),
      MustFloat64 = read_price,
      config = conf0\<rparr>"

text \<open>An order of the same pair exists, with the given status and transaction \<open>tx-1\<close>.\<close>

definition order_1 :: "DaoSubscribeT \<Rightarrow> DaoSubscribe" where
  "order_1 st = \<lparr>SubID = ObjectID ''order-1'', TxID = ''tx-1'', Status = st\<rparr>"

definition env_existing :: "DaoSubscribeT \<Rightarrow> env" where
  "env_existing st = env_first\<lparr>FindOne := (\<lambda>a d. (None, order_1 st))\<rparr>"

text \<open>The bus refuses the subscription: a nil handle and an error.\<close>

definition env_bus_down :: env where
  "env_bus_down =
     (env_existing DaoSubscribeSubmit)\<lparr>NewSubscribe := (\<lambda>k. (None, Some (Failure ''bus'')))\<rparr>"

text \<open>The caller cancels while the call waits on an existing submitted order.\<close>

definition env_cancel :: env where
  "env_cancel = (env_existing DaoSubscribeSubmit)\<lparr>select_ready := (\<lambda>h. CtxReady)\<rparr>"

text \<open>The write of the transaction identifier fails.\<close>

definition env_update_fails :: env where
  "env_update_fails =
     env_first\<lparr>UpdateSubscribeDAOTxID := (\<lambda>k t. Some (Failure ''write''))\<rparr>"

text \<open>The push gateway always fails.\<close>

definition env_push_down :: env where
  "env_push_down = env_first\<lparr>Notify := (\<lambda>n r. Some (Failure ''push''))\<rparr>"

text \<open>The user lookup of line 543 fails: a nil user and an error.\<close>

definition env_owner_missing :: env where
  "env_owner_missing =
     env_first\<lparr>GetUserByAddress :=
       (\<lambda>n a. if n = 543 then (None, Some (Failure ''no user''))
              else (Some (user_of a), None))\<rparr>"

definition ctx0 :: Context where
  "ctx0 = \<lparr>ctxErr = Canceled\<rparr>"

section \<open>Properties\<close>

subsection \<open>Reading the trace of an appended list\<close>

lemma pay_requests_append: "pay_requests (xs @ ys) = pay_requests xs @ pay_requests ys"
  by (induction xs rule: pay_requests.induct) simp_all

lemma subscribe_keys_append: "subscribe_keys (xs @ ys) = subscribe_keys xs @ subscribe_keys ys"
  by (induction xs rule: subscribe_keys.induct) simp_all

lemma notify_requests_append:
  "notify_requests (xs @ ys) = notify_requests xs @ notify_requests ys"
  by (induction xs rule: notify_requests.induct) simp_all

lemma user_lookups_append: "user_lookups (xs @ ys) = user_lookups xs @ user_lookups ys"
  by (induction xs rule: user_lookups.induct) simp_all

lemma before_pay_None: "pay_requests xs = [] \<Longrightarrow> before_pay xs = None"
  by (induction xs rule: before_pay.induct) simp_all

lemmas trace_append =
  pay_requests_append subscribe_keys_append notify_requests_append user_lookups_append

lemma log_subscription_err_plain:
  "pay_requests (log_subscription_err r) = []"
  "subscribe_keys (log_subscription_err r) = []"
  "notify_requests (log_subscription_err r) = []"
  "user_lookups (log_subscription_err r) = []"
  "filter is_store_write (log_subscription_err r) = []"
  "filter (\<lambda>e. \<not> is_update_log e) (log_subscription_err r) = log_subscription_err r"
  "CtxDone \<notin> set (log_subscription_err r)"
  "Wait \<notin> set (log_subscription_err r)"
  "Received v \<notin> set (log_subscription_err r)"
  by (simp_all add: log_subscription_err_def split: option.splits)

lemma log_update_err_plain:
  "pay_requests (log_update_err k t r) = []"
  "subscribe_keys (log_update_err k t r) = []"
  "filter is_store_write (log_update_err k t r) = []"
  "filter (\<lambda>e. \<not> is_update_log e) (log_update_err k t r) = []"
  "CtxDone \<notin> set (log_update_err k t r)"
  "Wait \<notin> set (log_update_err k t r)"
  "Received v \<notin> set (log_update_err k t r)"
  by (simp_all add: log_update_err_def split: option.splits)

lemma dispatch_plain:
  assumes "SubDao_dispatch env daoID address s = (c, es)"
  shows "(c = Next \<or> c = Panic) \<and> pay_requests es = [] \<and> subscribe_keys es = []
         \<and> filter is_store_write es = [] \<and> filter (\<lambda>e. \<not> is_update_log e) es = es
         \<and> CtxDone \<notin> set es \<and> Wait \<notin> set es \<and> Received v \<notin> set es"
  using assms
  by (auto simp add: SubDao_dispatch_def Let_def split_beta trace_append
        log_subscription_err_plain split: option.splits)

lemma order_found_terminal:
  assumes "FindOne env address daoID = (None, sub)" and "Status sub \<noteq> DaoSubscribeSubmit"
  shows "SubDao_order env daoID address s =
           (Return, s\<lparr>txID := TxID sub, status := Status sub, err := None\<rparr>,
            [CallFindOne address daoID])"
  using assms by (simp add: SubDao_order_def)

lemma order_found_submit:
  assumes "FindOne env address daoID = (None, sub)" and "Status sub = DaoSubscribeSubmit"
  shows "SubDao_order env daoID address s =
           (Next,
            s\<lparr>oid := Hex (SubID sub), notify := fst (NewSubscribe env (Hex (SubID sub))),
              txID := TxID sub, status := DaoSubscribeSubmit, err := None\<rparr>,
            [CallFindOne address daoID, CallNewSubscribe (Hex (SubID sub))])"
  using assms by (simp add: SubDao_order_def split_beta)

lemma order_plain:
  assumes "SubDao_order env daoID address s = (c, s', es)"
  shows "(c = Next \<or> c = Return) \<and> CtxDone \<notin> set es \<and> Wait \<notin> set es
         \<and> Received v \<notin> set es \<and> (c = Next \<longrightarrow> err s' = None)"
  using assms
  by (auto simp add: SubDao_order_def SubscribeDAO_def callback_def Let_def split_beta
        log_update_err_plain split: option.splits sum.splits if_splits)

lemma order_notify:
  assumes "SubDao_order env daoID address s = (c, s', es)"
  shows "(subscribe_keys es = [] \<and> notify s' = notify s)
         \<or> (\<exists>k. subscribe_keys es = [k] \<and> notify s' = fst (NewSubscribe env k))"
  using assms
  by (auto simp add: SubDao_order_def SubscribeDAO_def callback_def Let_def split_beta
        trace_append log_update_err_plain split: option.splits sum.splits if_splits)


lemma SubDao_wait_cases:
  obtains
    (nil_handle) "notify s = None"
      and "SubDao_wait env ctx daoID address s = (Panic, s, [Wait])"
  | (never_ready) h where "notify s = Some h"
      and "SubDao_wait env ctx daoID address s = (Block, s, [Wait])"
  | (ctx_ready) h where "notify s = Some h" and "select_ready env h = CtxReady"
      and "SubDao_wait env ctx daoID address s
             = (Next, s\<lparr>err := Some (ctxErr ctx)\<rparr>, [Wait, CtxDone])"
  | (other_val) h where "notify s = Some h"
      and "SubDao_wait env ctx daoID address s = (Panic, s, [Wait, Received OtherVal])"
  | (status_val) h v c es where "notify s = Some h"
      and "select_ready env h = ChReady (StatusVal v)"
      and "SubDao_dispatch env daoID address (s\<lparr>status := v\<rparr>) = (c, es)"
      and "SubDao_wait env ctx daoID address s
             = (c, s\<lparr>status := v\<rparr>, Wait # Received (StatusVal v) # es)"
proof (cases "notify s")
  case None
  then show thesis by (intro nil_handle) (simp_all add: SubDao_wait_def)
next
  case (Some h)
  show thesis
  proof (cases "select_ready env h")
    case CtxReady
    with Some show thesis by (intro ctx_ready [of h]) (simp_all add: SubDao_wait_def)
  next
    case NeverReady
    with Some show thesis by (intro never_ready [of h]) (simp_all add: SubDao_wait_def)
  next
    case (ChReady val)
    show thesis
    proof (cases val)
      case OtherVal
      with ChReady Some show thesis
        by (intro other_val [of h]) (simp_all add: SubDao_wait_def)
    next
      case (StatusVal v)
      obtain c es where "SubDao_dispatch env daoID address (s\<lparr>status := v\<rparr>) = (c, es)"
        by (cases "SubDao_dispatch env daoID address (s\<lparr>status := v\<rparr>)")
      with StatusVal ChReady Some show thesis
        by (intro status_val [of h v c es]) (simp_all add: SubDao_wait_def)
    qed
  qed
qed

lemma wait_plain:
  assumes "SubDao_wait env ctx daoID address s = (c, s', es)"
  shows "c \<noteq> Return \<and> notify s' = notify s \<and> txID s' = txID s \<and> toAddress s' = toAddress s
         \<and> price s' = price s
         \<and> pay_requests es = [] \<and> subscribe_keys es = [] \<and> filter is_store_write es = []
         \<and> filter (\<lambda>e. \<not> is_update_log e) es = es \<and> (\<exists>es'. es = Wait # es')"
proof (cases rule: SubDao_wait_cases [of s env ctx daoID address])
  case (status_val h v c' es')
  from dispatch_plain [OF status_val(3)] status_val(4) assms show ?thesis by auto
qed (use assms in auto)

lemma wait_ctx_done:
  assumes "SubDao_wait env ctx daoID address s = (c, s', es)" and "CtxDone \<in> set es"
  shows "c = Next \<and> es = [Wait, CtxDone] \<and> s' = s\<lparr>err := Some (ctxErr ctx)\<rparr>
         \<and> notify s \<noteq> None"
proof (cases rule: SubDao_wait_cases [of s env ctx daoID address])
  case (status_val h v c' es')
  from dispatch_plain [OF status_val(3)] status_val(4) assms show ?thesis by auto
qed (use assms in auto)

lemma wait_received:
  assumes "SubDao_wait env ctx daoID address s = (c, s', es)"
      and "Received (StatusVal v) \<in> set es"
  shows "s' = s\<lparr>status := v\<rparr> \<and> notify s \<noteq> None
         \<and> c = fst (SubDao_dispatch env daoID address (s\<lparr>status := v\<rparr>))
         \<and> es = Wait # Received (StatusVal v)
                  # snd (SubDao_dispatch env daoID address (s\<lparr>status := v\<rparr>))"
proof (cases rule: SubDao_wait_cases [of s env ctx daoID address])
  case (status_val h w c' es')
  from dispatch_plain [OF status_val(3), of "StatusVal v"] status_val assms show ?thesis
    by auto
qed (use assms in auto)

lemma finish_plain:
  assumes "SubDao_finish env address s = (c, s', es)"
  shows "(c = Return \<or> c = Panic) \<and> notify s' = notify s \<and> txID s' = txID s
         \<and> status s' = status s
         \<and> pay_requests es = [] \<and> subscribe_keys es = [] \<and> filter is_store_write es = []
         \<and> filter (\<lambda>e. \<not> is_update_log e) es = es
         \<and> CtxDone \<notin> set es \<and> Received v \<notin> set es
         \<and> (err s \<noteq> None \<longrightarrow> c = Return \<and> s' = s \<and> es = [])"
  using assms
  by (auto simp add: SubDao_finish_def Let_def split_beta trace_append
        log_subscription_err_plain split: option.splits if_splits)

lemma SubDao_body_cases:
  obtains
    (order_stop) c1 s1 es1 where
      "SubDao_order env daoID address s0 = (c1, s1, es1)" and "c1 \<noteq> Next"
      and "SubDao_body env ctx daoID address s0 = (c1, s1, es1)"
  | (wait_stop) s1 es1 c2 s2 es2 where
      "SubDao_order env daoID address s0 = (Next, s1, es1)"
      and "SubDao_wait env ctx daoID address s1 = (c2, s2, es2)" and "c2 \<noteq> Next"
      and "SubDao_body env ctx daoID address s0 = (c2, s2, es1 @ es2)"
  | (finish) s1 es1 s2 es2 c3 s3 es3 where
      "SubDao_order env daoID address s0 = (Next, s1, es1)"
      and "SubDao_wait env ctx daoID address s1 = (Next, s2, es2)"
      and "SubDao_finish env address s2 = (c3, s3, es3)"
      and "SubDao_body env ctx daoID address s0 = (c3, s3, es1 @ es2 @ es3)"
proof -
  obtain c1 s1 es1 where o: "SubDao_order env daoID address s0 = (c1, s1, es1)"
    by (cases "SubDao_order env daoID address s0")
  show thesis
  proof (cases "c1 = Next")
    case False
    with o show thesis by (intro order_stop [of c1 s1 es1]) (simp_all add: SubDao_body_def)
  next
    case True
    obtain c2 s2 es2 where w: "SubDao_wait env ctx daoID address s1 = (c2, s2, es2)"
      by (cases "SubDao_wait env ctx daoID address s1")
    show thesis
    proof (cases "c2 = Next")
      case False
      with o w True show thesis
        by (intro wait_stop [of s1 es1 c2 s2 es2]) (simp_all add: SubDao_body_def)
    next
      case c2: True
      obtain c3 s3 es3 where f: "SubDao_finish env address s2 = (c3, s3, es3)"
        by (cases "SubDao_finish env address s2")
      with o w True c2 show thesis
        by (intro finish [of s1 es1 s2 es2 c3 s3 es3]) (simp_all add: SubDao_body_def)
    qed
  qed
qed


lemma deferred_plain:
  "pay_requests (deferred s) = []"
  "subscribe_keys (deferred s) = []"
  "notify_requests (deferred s) = []"
  "user_lookups (deferred s) = []"
  "filter is_store_write (deferred s) = []"
  "filter (\<lambda>e. \<not> is_update_log e) (deferred s) = deferred s"
  "CtxDone \<notin> set (deferred s)"
  "Received v \<notin> set (deferred s)"
  by (simp_all add: deferred_def split: option.splits)

subsection \<open>The new-order path and the run as a whole\<close>

lemma order_new:
  assumes "FindOne env address daoID = (Some e, sub)"
      and "errors_Is e ErrNoDocuments"
      and "createOrder env address daoID = Inr (orderID, dao)"
  shows "SubDao_order env daoID address s =
     (let n = fst (NewSubscribe env orderID);
          e1 = snd (NewSubscribe env orderID);
          req = \<lparr>FromObject = address, ToSubject = Address dao, Amount = Price dao,
             Comment = '''', Channel = ''sub_dao'',
             ReturnURI = PointSetting_Callback (config env)
               @ ''/pay/notify?method=sub_dao&order_id='' @ orderID,
             BindOrder = orderID\<rparr>;
          t = fst (Pay env req);
          e2 = snd (Pay env req);
          s3 = s\<lparr>oid := orderID, notify := n, toAddress := Address dao,
                 price := MustFloat64 env (Price dao) / 1000, txID := t\<rparr>
      in if e1 \<noteq> None
         then (Return, s\<lparr>oid := orderID, notify := n, err := e1\<rparr>,
               [CallFindOne address daoID, CallSubscribeDAO address daoID,
                CallNewSubscribe orderID])
         else if e2 \<noteq> None
         then (Return, s3\<lparr>err := e2\<rparr>,
               [CallFindOne address daoID, CallSubscribeDAO address daoID,
                CallNewSubscribe orderID, CallPay req])
         else (Next, s3\<lparr>err := None\<rparr>,
               [CallFindOne address daoID, CallSubscribeDAO address daoID,
                CallNewSubscribe orderID, CallPay req,
                CallUpdateSubscribeDAOTxID orderID t]
               @ log_update_err orderID t (UpdateSubscribeDAOTxID env orderID t)))"
  using assms
  by (simp add: SubDao_order_def SubscribeDAO_def callback_def Let_def split_beta)

lemma SubDao_events_split:
  assumes "SubDao_order env daoID address (init_locals env) = (c1, s1, es1)"
  shows "\<exists>rest. events (SubDao env ctx daoID address) = es1 @ rest
           \<and> pay_requests rest = [] \<and> subscribe_keys rest = []
           \<and> filter is_store_write rest = []
           \<and> (c1 = Next \<longrightarrow> (\<exists>rest'. rest = Wait # rest'))"
proof (cases rule: SubDao_body_cases [of env daoID address "init_locals env" ctx])
  case (order_stop c1' s1' es1')
  with assms show ?thesis
    by (auto simp add: SubDao_def SubDao_exit_def deferred_plain)
next
  case (wait_stop s1' es1' c2 s2 es2)
  from wait_plain [OF wait_stop(2)] wait_stop(1,4) assms show ?thesis
    by (auto simp add: SubDao_def SubDao_exit_def trace_append deferred_plain)
next
  case (finish s1' es1' s2 es2 c3 s3 es3)
  from wait_plain [OF finish(2)] finish_plain [OF finish(3)] finish(1,4) assms
  show ?thesis
    by (auto simp add: SubDao_def SubDao_exit_def trace_append deferred_plain)
qed

lemma order_tx:
  assumes "SubDao_order env daoID address s = (Next, s', es)"
  shows "txID s' = (case pay_requests es of
                      [] \<Rightarrow> TxID (snd (FindOne env address daoID))
                    | q # qs \<Rightarrow> fst (Pay env q))
         \<and> toAddress s' = (case pay_requests es of [] \<Rightarrow> toAddress s | q # qs \<Rightarrow> ToSubject q)
         \<and> price s' = (case pay_requests es of
                         [] \<Rightarrow> price s
                       | q # qs \<Rightarrow> MustFloat64 env (Amount q) / 1000)"
  using assms
  by (auto simp add: SubDao_order_def SubscribeDAO_def callback_def Let_def split_beta
        trace_append log_update_err_plain split: option.splits sum.splits if_splits)

lemma finish_first_lookup:
  assumes "err s = None"
  shows "\<exists>c s' es. SubDao_finish env address s
           = (c, s', CallGetUserByAddress 543 (toAddress s) # es)"
  using assms
  by (simp add: SubDao_finish_def Let_def split_beta split: option.splits)

lemma dispatch_found:
  assumes "fst (GetDao env daoID) = Some d"
      and "fst (GetUserByAddress env 508 (Address d)) = Some a"
      and "fst (GetUserByAddress env 509 address) = Some u"
  shows "\<exists>r1 r2. SubDao_dispatch env daoID address s =
           (Next,
            [CallGetDao daoID, CallGetUserByAddress 508 (Address d),
             CallGetUserByAddress 509 address, CallNotify 521 r1]
            @ log_subscription_err (Notify env 521 r1)
            @ [CallNotify 536 r2] @ log_subscription_err (Notify env 536 r2))
           \<and> Content r1 = Sprintf ''Subscribe to %s dao successfully, pay %f FavT''
                             [S (Name d), F (price s)]
           \<and> Content r2 = Sprintf ''%s(%s) subscribed to your dao received %f FavT''
                             [S (Nickname u), S (UserAddress u), F (price s)]"
  using assms
  by (simp add: SubDao_dispatch_def Let_def split_beta)

lemma errorf_log_subscription_err:
  "filter is_errorf (log_subscription_err r) = log_subscription_err r"
  by (simp add: log_subscription_err_def split: option.splits)

lemma order_no_lookups:
  assumes "SubDao_order env daoID address s = (c, s', es)"
  shows "notify_requests es = [] \<and> user_lookups es = []"
  using assms
  by (auto simp add: SubDao_order_def SubscribeDAO_def callback_def Let_def split_beta
        log_update_err_def split: option.splits sum.splits if_splits)

lemma dispatch_given:
  assumes "fst (GetDao env daoID) = Some d"
      and "fst (GetUserByAddress env 508 (Address d)) \<noteq> None"
      and "fst (GetUserByAddress env 509 address) \<noteq> None"
  shows "\<exists>es. SubDao_dispatch env daoID address s = (Next, es)
           \<and> user_lookups es = [(508, Address d), (509, address)]
           \<and> map fst (notify_requests es) = [521, 536]
           \<and> filter is_errorf es =
               concat (map (\<lambda>(n, r). log_subscription_err (Notify env n r))
                 (notify_requests es))"
proof -
  from assms(2) obtain a where a: "fst (GetUserByAddress env 508 (Address d)) = Some a"
    by auto
  from assms(3) obtain u where u: "fst (GetUserByAddress env 509 address) = Some u"
    by auto
  from dispatch_found [OF assms(1) a u, of s] obtain r1 r2 where
    "SubDao_dispatch env daoID address s =
       (Next,
        [CallGetDao daoID, CallGetUserByAddress 508 (Address d),
         CallGetUserByAddress 509 address, CallNotify 521 r1]
        @ log_subscription_err (Notify env 521 r1)
        @ [CallNotify 536 r2] @ log_subscription_err (Notify env 536 r2))"
    by blast
  then show ?thesis
    by (simp add: trace_append log_subscription_err_plain errorf_log_subscription_err)
qed

lemma finish_given:
  assumes "err s = None"
      and "fst (GetUserByAddress env 548 address) \<noteq> None"
      and "GetUserByAddress env 543 (toAddress s) \<noteq> (None, None)"
  shows "\<exists>es. SubDao_finish env address s =
           (Return, s\<lparr>err := snd (GetUserByAddress env 543 (toAddress s))\<rparr>, es)
           \<and> user_lookups es =
               (543, toAddress s)
               # (if snd (GetUserByAddress env 543 (toAddress s)) = None
                  then [(548, address)] else [])
           \<and> map fst (notify_requests es) =
               (if snd (GetUserByAddress env 543 (toAddress s)) = None then [560] else [])
           \<and> filter is_errorf es =
               concat (map (\<lambda>(n, r). log_subscription_err (Notify env n r))
                 (notify_requests es))
               @ (case snd (GetUserByAddress env 543 (toAddress s)) of
                    None \<Rightarrow> []
                  | Some x \<Rightarrow> [Errorf ''get user err:%s'' [E x]])"
proof (cases "snd (GetUserByAddress env 543 (toAddress s))")
  case (Some x)
  then show ?thesis
    using assms(1) by (simp add: SubDao_finish_def Let_def split_beta)
next
  case None
  with assms(3) have "fst (GetUserByAddress env 543 (toAddress s)) \<noteq> None"
    by (cases "GetUserByAddress env 543 (toAddress s)") auto
  then obtain a where a: "fst (GetUserByAddress env 543 (toAddress s)) = Some a" by auto
  from assms(2) obtain u where u: "fst (GetUserByAddress env 548 address) = Some u" by auto
  from assms(1) have "s\<lparr>err := None\<rparr> = s" by simp
  with None a u assms(1) show ?thesis
    by (simp add: SubDao_finish_def Let_def split_beta trace_append
          log_subscription_err_plain errorf_log_subscription_err)
qed

lemma concat_map_singleton: "concat (map (\<lambda>(n, r). [c]) xs) = replicate (length xs) c"
  by (induction xs) auto

subsection \<open>The result of the transaction update is not read\<close>

lemma order_update_irrelevant:
  "SubDao_order (env\<lparr>UpdateSubscribeDAOTxID := (\<lambda>k t. None)\<rparr>) daoID address s =
     (case SubDao_order env daoID address s of
        (c, s', es) \<Rightarrow> (c, s', filter (\<lambda>e. \<not> is_update_log e) es))"
  by (auto simp add: SubDao_order_def SubscribeDAO_def callback_def Let_def split_beta
        log_update_err_def split: option.splits sum.splits)

lemma dispatch_update_irrelevant:
  "SubDao_dispatch (env\<lparr>UpdateSubscribeDAOTxID := u\<rparr>) daoID address s
     = SubDao_dispatch env daoID address s"
  by (simp add: SubDao_dispatch_def Let_def split_beta split: option.splits)

lemma wait_update_irrelevant:
  "SubDao_wait (env\<lparr>UpdateSubscribeDAOTxID := u\<rparr>) ctx daoID address s
     = SubDao_wait env ctx daoID address s"
  by (simp add: SubDao_wait_def dispatch_update_irrelevant
        split: option.splits ready.splits chan_val.splits)

lemma finish_update_irrelevant:
  "SubDao_finish (env\<lparr>UpdateSubscribeDAOTxID := u\<rparr>) address s = SubDao_finish env address s"
  by (simp add: SubDao_finish_def Let_def split_beta split: option.splits)

lemma body_update_irrelevant:
  "SubDao_body (env\<lparr>UpdateSubscribeDAOTxID := (\<lambda>k t. None)\<rparr>) ctx daoID address s0 =
     (case SubDao_body env ctx daoID address s0 of
        (c, s, es) \<Rightarrow> (c, s, filter (\<lambda>e. \<not> is_update_log e) es))"
proof (cases rule: SubDao_body_cases [of env daoID address s0 ctx])
  case (order_stop c1 s1 es1)
  then show ?thesis
    by (simp add: SubDao_body_def [of "env\<lparr>UpdateSubscribeDAOTxID := (\<lambda>k t. None)\<rparr>"]
          order_update_irrelevant)
next
  case (wait_stop s1 es1 c2 s2 es2)
  with wait_plain [OF wait_stop(2)] show ?thesis
    by (simp add: SubDao_body_def [of "env\<lparr>UpdateSubscribeDAOTxID := (\<lambda>k t. None)\<rparr>"]
          order_update_irrelevant wait_update_irrelevant)
next
  case (finish s1 es1 s2 es2 c3 s3 es3)
  with wait_plain [OF finish(2)] finish_plain [OF finish(3)] show ?thesis
    by (simp add: SubDao_body_def [of "env\<lparr>UpdateSubscribeDAOTxID := (\<lambda>k t. None)\<rparr>"]
          order_update_irrelevant wait_update_irrelevant finish_update_irrelevant)
qed

lemma SubDao_update_irrelevant:
  "outcome (SubDao (env\<lparr>UpdateSubscribeDAOTxID := (\<lambda>k t. None)\<rparr>) ctx daoID address)
     = outcome (SubDao env ctx daoID address)
   \<and> events (SubDao (env\<lparr>UpdateSubscribeDAOTxID := (\<lambda>k t. None)\<rparr>) ctx daoID address)
     = filter (\<lambda>e. \<not> is_update_log e) (events (SubDao env ctx daoID address))"
proof -
  obtain c s es where b: "SubDao_body env ctx daoID address (init_locals env) = (c, s, es)"
    by (cases "SubDao_body env ctx daoID address (init_locals env)")
  have i: "init_locals (env\<lparr>UpdateSubscribeDAOTxID := (\<lambda>k t. None)\<rparr>) = init_locals env"
    by (simp add: init_locals_def)
  from b show ?thesis
    by (simp add: SubDao_def i body_update_irrelevant SubDao_exit_def deferred_plain)
qed

subsection \<open>Running the model on a concrete environment\<close>

lemmas SubDao_eval =
  SubDao_def SubDao_exit_def SubDao_body_def SubDao_order_def SubscribeDAO_def callback_def
  SubDao_wait_def SubDao_dispatch_def SubDao_finish_def deferred_def init_locals_def
  log_subscription_err_def log_update_err_def Let_def

lemmas env_eval =
  env_first_def env_existing_def env_bus_down_def env_cancel_def env_update_fails_def
  env_push_down_def env_owner_missing_def order_1_def empty_sub_def dao_C_def user_of_def
  conf0_def ctx0_def read_price_def

subsection \<open>A first call: the payment request\<close>

text \<open>
  C1, as the specification states it, fails. In the scenario of its section 8 (price
  10000) the request handed to \<open>point.Pay\<close> carries the amount 10000, the configured
  price itself, while the price divided by 1000 is 10: the quotient is computed at
  line 467 into the local \<open>price\<close>, which only the notification texts print.
\<close>

theorem SubDao_pay_amount_not_scaled:
  "map Amount (pay_requests (events (SubDao env_first ctx0 (ObjectID ''c0'') ''0xa'')))
     = [''10000'']
   \<and> map (MustFloat64 env_first)
         (map Amount (pay_requests (events (SubDao env_first ctx0 (ObjectID ''c0'') ''0xa''))))
     = [10000]
   \<and> MustFloat64 env_first (Price dao_C) / 1000 = 10
   \<and> map (MustFloat64 env_first)
         (map Amount (pay_requests (events (SubDao env_first ctx0 (ObjectID ''c0'') ''0xa''))))
     \<noteq> [MustFloat64 env_first (Price dao_C) / 1000]"
  by (simp add: SubDao_eval env_eval)

text \<open>
  C1, amended. On a first call (the lookup reports \<open>ErrNoDocuments\<close>), once the order
  is created and the bus subscription has returned no error, \<open>point.Pay\<close> is called
  exactly once, and its request has the community's price string unchanged as
  \<open>Amount\<close>, the subscriber as \<open>FromObject\<close>, the community's owner as \<open>ToSubject\<close>
  and the new order as \<open>BindOrder\<close>.
\<close>

theorem SubDao_pay_amount_is_price:
  assumes "FindOne env address daoID = (Some e, sub)"
      and "errors_Is e ErrNoDocuments"
      and "createOrder env address daoID = Inr (orderID, dao)"
      and "snd (NewSubscribe env orderID) = None"
  shows "pay_requests (events (SubDao env ctx daoID address)) =
           [\<lparr>FromObject = address, ToSubject = Address dao, Amount = Price dao,
             Comment = '''', Channel = ''sub_dao'',
             ReturnURI = PointSetting_Callback (config env)
               @ ''/pay/notify?method=sub_dao&order_id='' @ orderID,
             BindOrder = orderID\<rparr>]"
proof -
  obtain c1 s1 es1 where o: "SubDao_order env daoID address (init_locals env) = (c1, s1, es1)"
    by (cases "SubDao_order env daoID address (init_locals env)")
  from o order_new [OF assms(1-3), of "init_locals env"] assms(4)
  have "pay_requests es1 = [\<lparr>FromObject = address, ToSubject = Address dao, Amount = Price dao,
             Comment = '''', Channel = ''sub_dao'',
             ReturnURI = PointSetting_Callback (config env)
               @ ''/pay/notify?method=sub_dao&order_id='' @ orderID,
             BindOrder = orderID\<rparr>]"
    by (auto simp add: Let_def trace_append log_update_err_plain split: if_splits)
  with SubDao_events_split [OF o, of ctx] show ?thesis
    by (auto simp add: trace_append)
qed

theorem SubDao_pay_amount_is_price_witness:
  "FindOne env_first ''0xa'' (ObjectID ''c0'') = (Some ErrNoDocuments, empty_sub)
   \<and> errors_Is ErrNoDocuments ErrNoDocuments
   \<and> createOrder env_first ''0xa'' (ObjectID ''c0'') = Inr (''order-1'', dao_C)
   \<and> snd (NewSubscribe env_first ''order-1'') = None
   \<and> pay_requests (events (SubDao env_first ctx0 (ObjectID ''c0'') ''0xa'')) =
       [\<lparr>FromObject = ''0xa'', ToSubject = ''0xowner'', Amount = ''10000'',
         Comment = '''', Channel = ''sub_dao'',
         ReturnURI = ''https://cb/pay/notify?method=sub_dao&order_id=order-1'',
         BindOrder = ''order-1''\<rparr>]"
proof -
  have h1: "FindOne env_first ''0xa'' (ObjectID ''c0'') = (Some ErrNoDocuments, empty_sub)"
    by (simp add: env_first_def)
  have h2: "errors_Is ErrNoDocuments ErrNoDocuments" by simp
  have h3: "createOrder env_first ''0xa'' (ObjectID ''c0'') = Inr (''order-1'', dao_C)"
    by (simp add: env_first_def)
  have h4: "snd (NewSubscribe env_first ''order-1'') = None"
    by (simp add: env_first_def)
  have c: "PointSetting_Callback (config env_first) = ''https://cb''"
    by (simp add: env_first_def conf0_def)
  have d: "Address dao_C = ''0xowner''" "Price dao_C = ''10000''"
    by (simp_all add: dao_C_def)
  from SubDao_pay_amount_is_price [OF h1 h2 h3 h4, of ctx0] h1 h2 h3 h4 c d
  show ?thesis by simp
qed

subsection \<open>After a delivery\<close>

text \<open>
  C2, as the specification states it, fails. With a successful payment and a delivered
  \<open>Success\<close>, let the user lookup of line 543 fail: the call logs the error and
  returns it (line 546), next to the transaction identifier and the status.
\<close>

theorem SubDao_owner_lookup_error_returned:
  "Received (StatusVal DaoSubscribeSuccess)
     \<in> set (events (SubDao env_owner_missing ctx0 (ObjectID ''c0'') ''0xa''))
   \<and> outcome (SubDao env_owner_missing ctx0 (ObjectID ''c0'') ''0xa'')
     = Returned ''tx-1'' DaoSubscribeSuccess (Some (Failure ''no user''))"
  by (simp add: SubDao_eval env_eval)

text \<open>
  C2, amended. Take a call that receives a status from the bus and in which no lookup
  gives a nil record that the code goes on to read: \<open>GetDao\<close> gives the community,
  the user lookups of lines 508, 509 and 548 give a record for the addresses the call
  passes, and the one of line 543 gives a record or an error. The call returns the
  delivered status and the transaction identifier (the stored one on a resumed order,
  the payment's on a first call), and the error it returns is exactly the error of the
  user lookup of line 543, nil when that lookup succeeds. It makes the two payment
  pushes and, when the lookup of line 543 succeeds, the third one. What it writes to
  the log from the wait on is one line for each push that failed and, when the lookup
  of line 543 failed, the line of that error: a failed push is logged and nothing
  else, the failed lookup is logged and returned.
\<close>

theorem SubDao_delivery_result:
  assumes "Received (StatusVal v) \<in> set (events (SubDao env ctx daoID address))"
      and "fst (GetDao env daoID) = Some d"
      and "fst (GetUserByAddress env 508 (Address d)) \<noteq> None"
      and "fst (GetUserByAddress env 509 address) \<noteq> None"
      and "fst (GetUserByAddress env 548 address) \<noteq> None"
      and "toA = (case pay_requests (events (SubDao env ctx daoID address)) of
                    [] \<Rightarrow> '''' | q # qs \<Rightarrow> ToSubject q)"
      and "GetUserByAddress env 543 toA \<noteq> (None, None)"
  shows "outcome (SubDao env ctx daoID address) =
           Returned
             (case pay_requests (events (SubDao env ctx daoID address)) of
                [] \<Rightarrow> TxID (snd (FindOne env address daoID))
              | q # qs \<Rightarrow> fst (Pay env q))
             v
             (snd (GetUserByAddress env 543 toA))
         \<and> user_lookups (events (SubDao env ctx daoID address)) =
             [(508, Address d), (509, address), (543, toA)]
             @ (if snd (GetUserByAddress env 543 toA) = None then [(548, address)] else [])
         \<and> map fst (notify_requests (events (SubDao env ctx daoID address))) =
             [521, 536] @ (if snd (GetUserByAddress env 543 toA) = None then [560] else [])
         \<and> filter is_errorf
             (dropWhile (\<lambda>e. e \<noteq> Wait) (events (SubDao env ctx daoID address))) =
             concat (map (\<lambda>(n, r). log_subscription_err (Notify env n r))
               (notify_requests (events (SubDao env ctx daoID address))))
             @ (case snd (GetUserByAddress env 543 toA) of
                  None \<Rightarrow> []
                | Some x \<Rightarrow> [Errorf ''get user err:%s'' [E x]])"
proof (cases rule: SubDao_body_cases [of env daoID address "init_locals env" ctx])
  case (order_stop c1 s1 es1)
  from order_plain [OF order_stop(1)] order_stop(2) have c1: "c1 = Return" by auto
  from order_stop(3) c1 have "events (SubDao env ctx daoID address) = es1 @ deferred s1"
    by (simp add: SubDao_def SubDao_exit_def)
  with assms(1) order_plain [OF order_stop(1), of "StatusVal v"] have False
    by (simp add: deferred_plain)
  then show ?thesis ..
next
  case (wait_stop s1 es1 c2 s2 es2)
  from wait_stop(4)
  have "set (events (SubDao env ctx daoID address)) \<subseteq> set es1 \<union> set es2 \<union> set (deferred s2)"
    by (auto simp add: SubDao_def SubDao_exit_def)
  with assms(1) order_plain [OF wait_stop(1), of "StatusVal v"]
  have "Received (StatusVal v) \<in> set es2"
    by (auto simp add: deferred_plain)
  from wait_received [OF wait_stop(2) this] wait_stop(3)
    dispatch_given [OF assms(2,3,4), of "s1\<lparr>status := v\<rparr>"]
  have False by auto
  then show ?thesis ..
next
  case (finish s1 es1 s2 es2 c3 s3 es3)
  from finish_plain [OF finish(3)] have c3: "c3 \<noteq> Block" by auto
  with finish(4)
  have ev: "events (SubDao env ctx daoID address) = es1 @ es2 @ es3 @ deferred s3"
    by (simp add: SubDao_def SubDao_exit_def)
  with assms(1) order_plain [OF finish(1), of "StatusVal v"]
    finish_plain [OF finish(3), of "StatusVal v"]
  have "Received (StatusVal v) \<in> set es2"
    by (auto simp add: deferred_plain)
  from wait_received [OF finish(2) this]
  have s2: "s2 = s1\<lparr>status := v\<rparr>"
    and es2: "es2 = Wait # Received (StatusVal v)
                # snd (SubDao_dispatch env daoID address (s1\<lparr>status := v\<rparr>))"
    by simp_all
  from dispatch_given [OF assms(2,3,4), of "s1\<lparr>status := v\<rparr>"] obtain esd where
    d: "snd (SubDao_dispatch env daoID address (s1\<lparr>status := v\<rparr>)) = esd"
       "user_lookups esd = [(508, Address d), (509, address)]"
       "map fst (notify_requests esd) = [521, 536]"
       "filter is_errorf esd =
          concat (map (\<lambda>(n, r). log_subscription_err (Notify env n r)) (notify_requests esd))"
    by auto
  from order_plain [OF finish(1)] s2 have e2: "err s2 = None" by simp
  from ev wait_plain [OF finish(2)] finish_plain [OF finish(3)]
  have p: "pay_requests (events (SubDao env ctx daoID address)) = pay_requests es1"
    by (simp add: trace_append deferred_plain)
  from order_tx [OF finish(1)] s2
  have t: "txID s2 = (case pay_requests es1 of
                        [] \<Rightarrow> TxID (snd (FindOne env address daoID))
                      | q # qs \<Rightarrow> fst (Pay env q))"
    and a: "toAddress s2 = (case pay_requests es1 of [] \<Rightarrow> '''' | q # qs \<Rightarrow> ToSubject q)"
    by (simp_all add: init_locals_def split: list.splits)
  from a p assms(6) have toA: "toAddress s2 = toA" by simp
  from assms(7) toA have g: "GetUserByAddress env 543 (toAddress s2) \<noteq> (None, None)" by simp
  from finish_given [OF e2 assms(5) g] finish(3) toA
  have f: "c3 = Return" "s3 = s2\<lparr>err := snd (GetUserByAddress env 543 toA)\<rparr>"
    and f1: "user_lookups es3 =
               (543, toA) # (if snd (GetUserByAddress env 543 toA) = None
                             then [(548, address)] else [])"
    and f2: "map fst (notify_requests es3) =
               (if snd (GetUserByAddress env 543 toA) = None then [560] else [])"
    and f3: "filter is_errorf es3 =
               concat (map (\<lambda>(n, r). log_subscription_err (Notify env n r))
                 (notify_requests es3))
               @ (case snd (GetUserByAddress env 543 toA) of
                    None \<Rightarrow> []
                  | Some x \<Rightarrow> [Errorf ''get user err:%s'' [E x]])"
    by auto
  from order_plain [OF finish(1)] have nw: "\<forall>x \<in> set es1. x \<noteq> Wait" by auto
  from nw ev es2 d(1)
  have dw: "dropWhile (\<lambda>e. e \<noteq> Wait) (events (SubDao env ctx daoID address))
              = Wait # Received (StatusVal v) # esd @ es3 @ deferred s3"
    by simp
  have o1: "outcome (SubDao env ctx daoID address) =
           Returned
             (case pay_requests (events (SubDao env ctx daoID address)) of
                [] \<Rightarrow> TxID (snd (FindOne env address daoID))
              | q # qs \<Rightarrow> fst (Pay env q))
             v
             (snd (GetUserByAddress env 543 toA))"
    using finish(4) f s2 p t by (simp add: SubDao_def SubDao_exit_def)
  have o2: "user_lookups (events (SubDao env ctx daoID address)) =
             [(508, Address d), (509, address), (543, toA)]
             @ (if snd (GetUserByAddress env 543 toA) = None then [(548, address)] else [])"
    using ev es2 d order_no_lookups [OF finish(1)] f1
    by (simp add: trace_append deferred_plain)
  have nr: "notify_requests (events (SubDao env ctx daoID address))
              = notify_requests esd @ notify_requests es3"
    using ev es2 d(1) order_no_lookups [OF finish(1)]
    by (simp add: trace_append deferred_plain)
  have o3: "map fst (notify_requests (events (SubDao env ctx daoID address))) =
             [521, 536] @ (if snd (GetUserByAddress env 543 toA) = None then [560] else [])"
    using nr d(3) f2 by simp
  have df: "filter is_errorf (deferred s3) = []"
    by (simp add: deferred_def split: option.splits)
  have o4: "filter is_errorf
             (dropWhile (\<lambda>e. e \<noteq> Wait) (events (SubDao env ctx daoID address))) =
             concat (map (\<lambda>(n, r). log_subscription_err (Notify env n r))
               (notify_requests (events (SubDao env ctx daoID address))))
             @ (case snd (GetUserByAddress env 543 toA) of
                  None \<Rightarrow> []
                | Some x \<Rightarrow> [Errorf ''get user err:%s'' [E x]])"
    using dw nr d(4) f3 df by simp
  from o1 o2 o3 o4 show ?thesis by simp
qed

theorem SubDao_delivery_result_witness:
  "Received (StatusVal DaoSubscribeSuccess)
     \<in> set (events (SubDao env_push_down ctx0 (ObjectID ''c0'') ''0xa''))
   \<and> fst (GetDao env_push_down (ObjectID ''c0'')) = Some dao_C
   \<and> fst (GetUserByAddress env_push_down 508 ''0xowner'') \<noteq> None
   \<and> fst (GetUserByAddress env_push_down 509 ''0xa'') \<noteq> None
   \<and> fst (GetUserByAddress env_push_down 548 ''0xa'') \<noteq> None
   \<and> GetUserByAddress env_push_down 543 ''0xowner'' \<noteq> (None, None)
   \<and> Notify env_push_down 521 = (\<lambda>r. Some (Failure ''push''))
   \<and> outcome (SubDao env_push_down ctx0 (ObjectID ''c0'') ''0xa'')
     = Returned ''tx-1'' DaoSubscribeSuccess None
   \<and> user_lookups (events (SubDao env_push_down ctx0 (ObjectID ''c0'') ''0xa''))
     = [(508, ''0xowner''), (509, ''0xa''), (543, ''0xowner''), (548, ''0xa'')]
   \<and> map fst (notify_requests (events (SubDao env_push_down ctx0 (ObjectID ''c0'') ''0xa'')))
     = [521, 536, 560]
   \<and> filter is_errorf
       (dropWhile (\<lambda>e. e \<noteq> Wait)
          (events (SubDao env_push_down ctx0 (ObjectID ''c0'') ''0xa'')))
     = [Errorf ''subscription err:%s'' [E (Failure ''push'')],
        Errorf ''subscription err:%s'' [E (Failure ''push'')],
        Errorf ''subscription err:%s'' [E (Failure ''push'')]]"
proof -
  have ev: "pay_requests (events (SubDao env_push_down ctx0 (ObjectID ''c0'') ''0xa'')) =
       [\<lparr>FromObject = ''0xa'', ToSubject = ''0xowner'', Amount = ''10000'',
         Comment = '''', Channel = ''sub_dao'',
         ReturnURI = ''https://cb/pay/notify?method=sub_dao&order_id=order-1'',
         BindOrder = ''order-1''\<rparr>]"
    by (simp add: SubDao_eval env_eval)
  have h1: "Received (StatusVal DaoSubscribeSuccess)
              \<in> set (events (SubDao env_push_down ctx0 (ObjectID ''c0'') ''0xa''))"
    by (simp add: SubDao_eval env_eval)
  have h2: "fst (GetDao env_push_down (ObjectID ''c0'')) = Some dao_C"
    by (simp add: env_push_down_def env_first_def)
  have h3: "fst (GetUserByAddress env_push_down 508 (Address dao_C)) \<noteq> None"
    by (simp add: env_push_down_def env_first_def)
  have h4: "fst (GetUserByAddress env_push_down 509 ''0xa'') \<noteq> None"
    by (simp add: env_push_down_def env_first_def)
  have h5: "fst (GetUserByAddress env_push_down 548 ''0xa'') \<noteq> None"
    by (simp add: env_push_down_def env_first_def)
  have h6: "''0xowner'' =
              (case pay_requests (events (SubDao env_push_down ctx0 (ObjectID ''c0'') ''0xa''))
               of [] \<Rightarrow> '''' | q # qs \<Rightarrow> ToSubject q)"
    by (simp add: ev)
  have h7: "GetUserByAddress env_push_down 543 ''0xowner'' \<noteq> (None, None)"
    by (simp add: env_push_down_def env_first_def)
  have h8: "Notify env_push_down 521 = (\<lambda>r. Some (Failure ''push''))"
    by (simp add: env_push_down_def)
  have d: "Address dao_C = ''0xowner''" by (simp add: dao_C_def)
  have p: "fst (Pay env_push_down q) = ''tx-1''"
          "snd (GetUserByAddress env_push_down 543 x) = None"
          "log_subscription_err (Notify env_push_down n r)
             = [Errorf ''subscription err:%s'' [E (Failure ''push'')]]" for q x n r
    by (simp_all add: env_push_down_def env_first_def log_subscription_err_def)
  note t = SubDao_delivery_result [OF h1 h2 h3 h4 h5 h6 h7]
  from t have "length (map fst (notify_requests
                 (events (SubDao env_push_down ctx0 (ObjectID ''c0'') ''0xa'')))) = 3"
    by (simp add: p)
  then have len: "length (notify_requests
                    (events (SubDao env_push_down ctx0 (ObjectID ''c0'') ''0xa''))) = 3"
    by simp
  from t ev p d len h1 h2 h3 h4 h5 h7 h8 show ?thesis
    by (simp add: concat_map_singleton numeral_3_eq_3)
qed

subsection \<open>An existing order\<close>

text \<open>
  C3. When the lookup finds an order of the pair whose status is not
  \<open>DaoSubscribeSubmit\<close>, the call returns the stored transaction identifier and status
  with a nil error, and the lookup is the only thing it does: no bus subscription, no
  payment, no wait.
\<close>

theorem SubDao_terminal_order_short_circuit:
  assumes "FindOne env address daoID = (None, sub)"
      and "Status sub \<noteq> DaoSubscribeSubmit"
  shows "SubDao env ctx daoID address =
           \<lparr>outcome = Returned (TxID sub) (Status sub) None,
            events = [CallFindOne address daoID]\<rparr>"
  by (simp add: SubDao_def SubDao_body_def order_found_terminal [OF assms] SubDao_exit_def
        deferred_def init_locals_def)

theorem SubDao_terminal_order_short_circuit_witness:
  "FindOne (env_existing DaoSubscribeSuccess) ''0xa'' (ObjectID ''c0'')
     = (None, order_1 DaoSubscribeSuccess)
   \<and> Status (order_1 DaoSubscribeSuccess) \<noteq> DaoSubscribeSubmit
   \<and> SubDao (env_existing DaoSubscribeSuccess) ctx0 (ObjectID ''c0'') ''0xa'' =
       \<lparr>outcome = Returned ''tx-1'' DaoSubscribeSuccess None,
        events = [CallFindOne ''0xa'' (ObjectID ''c0'')]\<rparr>"
proof -
  have h1: "FindOne (env_existing DaoSubscribeSuccess) ''0xa'' (ObjectID ''c0'')
              = (None, order_1 DaoSubscribeSuccess)"
    by (simp add: env_existing_def)
  have h2: "Status (order_1 DaoSubscribeSuccess) \<noteq> DaoSubscribeSubmit"
    by (simp add: order_1_def)
  from SubDao_terminal_order_short_circuit [OF h1 h2, of ctx0] h1 h2 show ?thesis
    by (simp add: order_1_def)
qed

subsection \<open>Cancellation\<close>

text \<open>
  C4. When the wait is ended by the caller's context, the call returns the context's
  error, and from the wait on it does exactly three things: it enters the \<open>select\<close>,
  sees the context done, and cancels its bus subscription. None of them is a call to
  the order store, so the call leaves the order as it was when the wait began.
\<close>

theorem SubDao_cancelled_wait:
  assumes "CtxDone \<in> set (events (SubDao env ctx daoID address))"
  shows "\<exists>t st h.
           outcome (SubDao env ctx daoID address) = Returned t st (Some (ctxErr ctx))
           \<and> dropWhile (\<lambda>e. e \<noteq> Wait) (events (SubDao env ctx daoID address))
               = [Wait, CtxDone, CallCancel h]
           \<and> filter is_store_write
               (dropWhile (\<lambda>e. e \<noteq> Wait) (events (SubDao env ctx daoID address))) = []"
proof (cases rule: SubDao_body_cases [of env daoID address "init_locals env" ctx])
  case (order_stop c1 s1 es1)
  from order_plain [OF order_stop(1)] order_stop(2) have c1: "c1 = Return" by auto
  from order_stop(3) c1 have "events (SubDao env ctx daoID address) = es1 @ deferred s1"
    by (simp add: SubDao_def SubDao_exit_def)
  with assms order_plain [OF order_stop(1)] have False
    by (simp add: deferred_plain)
  then show ?thesis ..
next
  case (wait_stop s1 es1 c2 s2 es2)
  from wait_stop(4)
  have "set (events (SubDao env ctx daoID address)) \<subseteq> set es1 \<union> set es2 \<union> set (deferred s2)"
    by (auto simp add: SubDao_def SubDao_exit_def)
  with assms order_plain [OF wait_stop(1)] have "CtxDone \<in> set es2"
    by (auto simp add: deferred_plain)
  from wait_ctx_done [OF wait_stop(2) this] wait_stop(3) have False by simp
  then show ?thesis ..
next
  case (finish s1 es1 s2 es2 c3 s3 es3)
  from finish_plain [OF finish(3)] have c3: "c3 \<noteq> Block" by auto
  with finish(4)
  have ev: "events (SubDao env ctx daoID address) = es1 @ es2 @ es3 @ deferred s3"
    by (simp add: SubDao_def SubDao_exit_def)
  with assms order_plain [OF finish(1)] finish_plain [OF finish(3)] have "CtxDone \<in> set es2"
    by (auto simp add: deferred_plain)
  from wait_ctx_done [OF finish(2) this]
  have w: "es2 = [Wait, CtxDone]" "s2 = s1\<lparr>err := Some (ctxErr ctx)\<rparr>" "notify s1 \<noteq> None"
    by simp_all
  from w(2) finish_plain [OF finish(3)] have f: "c3 = Return" "s3 = s2" "es3 = []"
    by simp_all
  from w(3) obtain h where h: "notify s1 = Some h" by auto
  from order_plain [OF finish(1)] have "\<forall>x \<in> set es1. x \<noteq> Wait" by auto
  then have "dropWhile (\<lambda>e. e \<noteq> Wait) (es1 @ [Wait, CtxDone, CallCancel h])
               = [Wait, CtxDone, CallCancel h]"
    by simp
  with ev w f h finish(4) show ?thesis
    by (simp add: SubDao_def SubDao_exit_def deferred_def)
qed

theorem SubDao_cancelled_wait_witness:
  "CtxDone \<in> set (events (SubDao env_cancel ctx0 (ObjectID ''c0'') ''0xa''))
   \<and> (\<exists>t st h.
         outcome (SubDao env_cancel ctx0 (ObjectID ''c0'') ''0xa'')
           = Returned t st (Some Canceled)
         \<and> dropWhile (\<lambda>e. e \<noteq> Wait) (events (SubDao env_cancel ctx0 (ObjectID ''c0'') ''0xa''))
           = [Wait, CtxDone, CallCancel h]
         \<and> filter is_store_write
             (dropWhile (\<lambda>e. e \<noteq> Wait)
                (events (SubDao env_cancel ctx0 (ObjectID ''c0'') ''0xa''))) = [])"
proof -
  have h: "CtxDone \<in> set (events (SubDao env_cancel ctx0 (ObjectID ''c0'') ''0xa''))"
    by (simp add: SubDao_eval env_eval)
  have c: "ctxErr ctx0 = Canceled" by (simp add: ctx0_def)
  from SubDao_cancelled_wait [OF h] h c show ?thesis by simp
qed

subsection \<open>A first call: subscription and payment\<close>

text \<open>
  C5. On a first call whose order has been created, \<open>point.Pay\<close> is called if and only
  if \<open>pubsub.NewSubscribe\<close> for the new order's identifier has returned no error, and
  then what the call has done before the payment is the lookup, the order creation and
  that subscription, in this order; the payment is bound to the same order.
\<close>

theorem SubDao_subscribes_before_pay:
  assumes "FindOne env address daoID = (Some e, sub)"
      and "errors_Is e ErrNoDocuments"
      and "createOrder env address daoID = Inr (orderID, dao)"
  shows "before_pay (events (SubDao env ctx daoID address)) =
           (if snd (NewSubscribe env orderID) = None
            then Some [CallFindOne address daoID, CallSubscribeDAO address daoID,
                       CallNewSubscribe orderID]
            else None)
         \<and> map BindOrder (pay_requests (events (SubDao env ctx daoID address))) =
           (if snd (NewSubscribe env orderID) = None then [orderID] else [])"
proof -
  obtain c1 s1 es1 where o: "SubDao_order env daoID address (init_locals env) = (c1, s1, es1)"
    by (cases "SubDao_order env daoID address (init_locals env)")
  from SubDao_events_split [OF o, of ctx] obtain rest where
    r: "events (SubDao env ctx daoID address) = es1 @ rest" "pay_requests rest = []"
    by blast
  show ?thesis
  proof (cases "snd (NewSubscribe env orderID) = None")
    case True
    with o order_new [OF assms(1-3), of "init_locals env"] r show ?thesis
      by (auto simp add: Let_def trace_append log_update_err_plain split: if_splits)
  next
    case False
    with o order_new [OF assms(1-3), of "init_locals env"] r show ?thesis
      by (auto simp add: Let_def before_pay_None)
  qed
qed

theorem SubDao_subscribes_before_pay_witness:
  "FindOne env_first ''0xa'' (ObjectID ''c0'') = (Some ErrNoDocuments, empty_sub)
   \<and> errors_Is ErrNoDocuments ErrNoDocuments
   \<and> createOrder env_first ''0xa'' (ObjectID ''c0'') = Inr (''order-1'', dao_C)
   \<and> before_pay (events (SubDao env_first ctx0 (ObjectID ''c0'') ''0xa'')) =
       Some [CallFindOne ''0xa'' (ObjectID ''c0''),
             CallSubscribeDAO ''0xa'' (ObjectID ''c0''),
             CallNewSubscribe ''order-1'']
   \<and> map BindOrder (pay_requests (events (SubDao env_first ctx0 (ObjectID ''c0'') ''0xa'')))
       = [''order-1'']"
proof -
  have h1: "FindOne env_first ''0xa'' (ObjectID ''c0'') = (Some ErrNoDocuments, empty_sub)"
    by (simp add: env_first_def)
  have h2: "errors_Is ErrNoDocuments ErrNoDocuments" by simp
  have h3: "createOrder env_first ''0xa'' (ObjectID ''c0'') = Inr (''order-1'', dao_C)"
    by (simp add: env_first_def)
  have h4: "snd (NewSubscribe env_first ''order-1'') = None"
    by (simp add: env_first_def)
  from SubDao_subscribes_before_pay [OF h1 h2 h3, of ctx0] h1 h2 h3 h4
  show ?thesis by simp
qed

subsection \<open>The deferred cancel\<close>

text \<open>
  C6. Whenever the call ends, by a return with or without error or by a panic, and
  \<open>pubsub.NewSubscribe\<close> has given it a handle during the call, the last thing the
  call does is \<open>Cancel\<close> on that handle.
\<close>

theorem SubDao_exit_cancels_subscription:
  assumes "outcome (SubDao env ctx daoID address) \<noteq> Blocked"
      and "k \<in> set (subscribe_keys (events (SubDao env ctx daoID address)))"
      and "fst (NewSubscribe env k) = Some h"
  shows "last (events (SubDao env ctx daoID address)) = CallCancel h"
proof (cases rule: SubDao_body_cases [of env daoID address "init_locals env" ctx])
  case (order_stop c1 s1 es1)
  from order_plain [OF order_stop(1)] order_stop(2) have c1: "c1 = Return" by auto
  from order_stop(3) c1 have ev: "events (SubDao env ctx daoID address) = es1 @ deferred s1"
    by (simp add: SubDao_def SubDao_exit_def)
  with assms(2) have "k \<in> set (subscribe_keys es1)"
    by (simp add: trace_append deferred_plain)
  with order_notify [OF order_stop(1)] assms(3) have "notify s1 = Some h" by auto
  with ev show ?thesis by (simp add: deferred_def)
next
  case (wait_stop s1 es1 c2 s2 es2)
  from assms(1) wait_stop(4) have c2: "c2 \<noteq> Block"
    by (auto simp add: SubDao_def SubDao_exit_def)
  with wait_stop(4)
  have ev: "events (SubDao env ctx daoID address) = (es1 @ es2) @ deferred s2"
    by (simp add: SubDao_def SubDao_exit_def)
  with assms(2) wait_plain [OF wait_stop(2)] have "k \<in> set (subscribe_keys es1)"
    by (simp add: trace_append deferred_plain)
  with order_notify [OF wait_stop(1)] assms(3) have "notify s1 = Some h" by auto
  with wait_plain [OF wait_stop(2)] have "notify s2 = Some h" by simp
  with ev show ?thesis by (simp add: deferred_def)
next
  case (finish s1 es1 s2 es2 c3 s3 es3)
  from finish_plain [OF finish(3)] have c3: "c3 \<noteq> Block" by auto
  with finish(4)
  have ev: "events (SubDao env ctx daoID address) = (es1 @ es2 @ es3) @ deferred s3"
    by (simp add: SubDao_def SubDao_exit_def)
  with assms(2) wait_plain [OF finish(2)] finish_plain [OF finish(3)]
  have "k \<in> set (subscribe_keys es1)"
    by (simp add: trace_append deferred_plain)
  with order_notify [OF finish(1)] assms(3) have "notify s1 = Some h" by auto
  with wait_plain [OF finish(2)] finish_plain [OF finish(3)] have "notify s3 = Some h"
    by simp
  with ev show ?thesis by (simp add: deferred_def)
qed

theorem SubDao_exit_cancels_subscription_witness:
  "outcome (SubDao env_cancel ctx0 (ObjectID ''c0'') ''0xa'') \<noteq> Blocked
   \<and> ''order-1'' \<in> set (subscribe_keys (events (SubDao env_cancel ctx0 (ObjectID ''c0'') ''0xa'')))
   \<and> fst (NewSubscribe env_cancel ''order-1'') = Some (Handle 1)
   \<and> last (events (SubDao env_cancel ctx0 (ObjectID ''c0'') ''0xa'')) = CallCancel (Handle 1)"
proof -
  have h1: "outcome (SubDao env_cancel ctx0 (ObjectID ''c0'') ''0xa'') \<noteq> Blocked"
    by (simp add: SubDao_eval env_eval)
  have h2: "''order-1''
              \<in> set (subscribe_keys (events (SubDao env_cancel ctx0 (ObjectID ''c0'') ''0xa'')))"
    by (simp add: SubDao_eval env_eval)
  have h3: "fst (NewSubscribe env_cancel ''order-1'') = Some (Handle 1)"
    by (simp add: env_cancel_def env_existing_def env_first_def)
  from SubDao_exit_cancels_subscription [OF h1 h2 h3] h1 h2 h3 show ?thesis by simp
qed

subsection \<open>Resuming a submitted order\<close>




subsection \<open>A failed write of the transaction identifier\<close>

text \<open>
  C8. On a first call whose payment has been started, let
  \<open>ds.UpdateSubscribeDAOTxID\<close> fail. The call logs the error and its next step is the
  wait. Its outcome is the outcome of the same call in the environment where the write
  succeeds, and its events are that call's events with the one log line added: the
  error is never returned.
\<close>

theorem SubDao_update_failure_logged_only:
  assumes "FindOne env address daoID = (Some e, sub)"
      and "errors_Is e ErrNoDocuments"
      and "createOrder env address daoID = Inr (orderID, dao)"
      and "snd (NewSubscribe env orderID) = None"
      and "Pay env \<lparr>FromObject = address, ToSubject = Address dao, Amount = Price dao,
             Comment = '''', Channel = ''sub_dao'',
             ReturnURI = PointSetting_Callback (config env)
               @ ''/pay/notify?method=sub_dao&order_id='' @ orderID,
             BindOrder = orderID\<rparr> = (t, None)"
      and "UpdateSubscribeDAOTxID env orderID t = Some x"
  shows "take 7 (events (SubDao env ctx daoID address)) =
           [CallFindOne address daoID, CallSubscribeDAO address daoID,
            CallNewSubscribe orderID,
            CallPay \<lparr>FromObject = address, ToSubject = Address dao, Amount = Price dao,
             Comment = '''', Channel = ''sub_dao'',
             ReturnURI = PointSetting_Callback (config env)
               @ ''/pay/notify?method=sub_dao&order_id='' @ orderID,
             BindOrder = orderID\<rparr>,
            CallUpdateSubscribeDAOTxID orderID t,
            Errorf ''ds.UpdateSubscribeDAOTxID order_id:%s tx_id:%s err:%s''
              [S orderID, S t, E x],
            Wait]
         \<and> outcome (SubDao env ctx daoID address)
           = outcome (SubDao (env\<lparr>UpdateSubscribeDAOTxID := (\<lambda>k t. None)\<rparr>) ctx daoID address)
         \<and> filter (\<lambda>e. \<not> is_update_log e) (events (SubDao env ctx daoID address))
           = events (SubDao (env\<lparr>UpdateSubscribeDAOTxID := (\<lambda>k t. None)\<rparr>) ctx daoID address)"
proof -
  obtain c1 s1 es1 where o: "SubDao_order env daoID address (init_locals env) = (c1, s1, es1)"
    by (cases "SubDao_order env daoID address (init_locals env)")
  from o order_new [OF assms(1-3), of "init_locals env"] assms(4-6)
  have "c1 = Next"
    and "es1 = [CallFindOne address daoID, CallSubscribeDAO address daoID,
            CallNewSubscribe orderID,
            CallPay \<lparr>FromObject = address, ToSubject = Address dao, Amount = Price dao,
             Comment = '''', Channel = ''sub_dao'',
             ReturnURI = PointSetting_Callback (config env)
               @ ''/pay/notify?method=sub_dao&order_id='' @ orderID,
             BindOrder = orderID\<rparr>,
            CallUpdateSubscribeDAOTxID orderID t,
            Errorf ''ds.UpdateSubscribeDAOTxID order_id:%s tx_id:%s err:%s''
              [S orderID, S t, E x]]"
    by (simp_all add: Let_def log_update_err_def)
  with SubDao_events_split [OF o, of ctx]
  have "take 7 (events (SubDao env ctx daoID address)) =
           [CallFindOne address daoID, CallSubscribeDAO address daoID,
            CallNewSubscribe orderID,
            CallPay \<lparr>FromObject = address, ToSubject = Address dao, Amount = Price dao,
             Comment = '''', Channel = ''sub_dao'',
             ReturnURI = PointSetting_Callback (config env)
               @ ''/pay/notify?method=sub_dao&order_id='' @ orderID,
             BindOrder = orderID\<rparr>,
            CallUpdateSubscribeDAOTxID orderID t,
            Errorf ''ds.UpdateSubscribeDAOTxID order_id:%s tx_id:%s err:%s''
              [S orderID, S t, E x],
            Wait]"
    by auto
  with SubDao_update_irrelevant [of env ctx daoID address] show ?thesis by simp
qed

theorem SubDao_update_failure_logged_only_witness:
  "FindOne env_update_fails ''0xa'' (ObjectID ''c0'') = (Some ErrNoDocuments, empty_sub)
   \<and> errors_Is ErrNoDocuments ErrNoDocuments
   \<and> createOrder env_update_fails ''0xa'' (ObjectID ''c0'') = Inr (''order-1'', dao_C)
   \<and> snd (NewSubscribe env_update_fails ''order-1'') = None
   \<and> UpdateSubscribeDAOTxID env_update_fails ''order-1'' ''tx-1'' = Some (Failure ''write'')
   \<and> take 7 (events (SubDao env_update_fails ctx0 (ObjectID ''c0'') ''0xa'')) =
       [CallFindOne ''0xa'' (ObjectID ''c0''), CallSubscribeDAO ''0xa'' (ObjectID ''c0''),
        CallNewSubscribe ''order-1'',
        CallPay \<lparr>FromObject = ''0xa'', ToSubject = ''0xowner'', Amount = ''10000'',
                 Comment = '''', Channel = ''sub_dao'',
                 ReturnURI = ''https://cb/pay/notify?method=sub_dao&order_id=order-1'',
                 BindOrder = ''order-1''\<rparr>,
        CallUpdateSubscribeDAOTxID ''order-1'' ''tx-1'',
        Errorf ''ds.UpdateSubscribeDAOTxID order_id:%s tx_id:%s err:%s''
          [S ''order-1'', S ''tx-1'', E (Failure ''write'')],
        Wait]
   \<and> outcome (SubDao env_update_fails ctx0 (ObjectID ''c0'') ''0xa'')
       = outcome (SubDao (env_update_fails\<lparr>UpdateSubscribeDAOTxID := (\<lambda>k t. None)\<rparr>)
                    ctx0 (ObjectID ''c0'') ''0xa'')
   \<and> filter (\<lambda>e. \<not> is_update_log e)
         (events (SubDao env_update_fails ctx0 (ObjectID ''c0'') ''0xa''))
       = events (SubDao (env_update_fails\<lparr>UpdateSubscribeDAOTxID := (\<lambda>k t. None)\<rparr>)
                   ctx0 (ObjectID ''c0'') ''0xa'')"
proof -
  have h1: "FindOne env_update_fails ''0xa'' (ObjectID ''c0'')
              = (Some ErrNoDocuments, empty_sub)"
    by (simp add: env_update_fails_def env_first_def)
  have h2: "errors_Is ErrNoDocuments ErrNoDocuments" by simp
  have h3: "createOrder env_update_fails ''0xa'' (ObjectID ''c0'') = Inr (''order-1'', dao_C)"
    by (simp add: env_update_fails_def env_first_def)
  have h4: "snd (NewSubscribe env_update_fails ''order-1'') = None"
    by (simp add: env_update_fails_def env_first_def)
  have h5: "Pay env_update_fails
              \<lparr>FromObject = ''0xa'', ToSubject = Address dao_C, Amount = Price dao_C,
               Comment = '''', Channel = ''sub_dao'',
               ReturnURI = PointSetting_Callback (config env_update_fails)
                 @ ''/pay/notify?method=sub_dao&order_id='' @ ''order-1'',
               BindOrder = ''order-1''\<rparr> = (''tx-1'', None)"
    by (simp add: env_update_fails_def env_first_def)
  have h6: "UpdateSubscribeDAOTxID env_update_fails ''order-1'' ''tx-1''
              = Some (Failure ''write'')"
    by (simp add: env_update_fails_def)
  have c: "PointSetting_Callback (config env_update_fails) = ''https://cb''"
    by (simp add: env_update_fails_def env_first_def conf0_def)
  have d: "Address dao_C = ''0xowner''" "Price dao_C = ''10000''"
    by (simp_all add: dao_C_def)
  from SubDao_update_failure_logged_only [OF h1 h2 h3 h4 h5 h6, of ctx0] h1 h2 h3 h4 h6 c d
  show ?thesis by simp
qed

subsection \<open>A nil handle on the resumed path\<close>

text \<open>
  C9. On the path of an existing submitted order the error of \<open>pubsub.NewSubscribe\<close> is
  dropped (line 496). When the call gives a nil handle, with whatever error, the
  \<open>select\<close> is still entered and the call panics there at \<open>notify.Ch\<close>; nothing is
  cancelled.
\<close>

theorem SubDao_nil_handle_panics:
  assumes "FindOne env address daoID = (None, sub)"
      and "Status sub = DaoSubscribeSubmit"
      and "NewSubscribe env (Hex (SubID sub)) = (None, e)"
  shows "SubDao env ctx daoID address =
           \<lparr>outcome = Panicked,
            events = [CallFindOne address daoID, CallNewSubscribe (Hex (SubID sub)), Wait]\<rparr>"
  using assms(3)
  by (simp add: SubDao_def SubDao_body_def order_found_submit [OF assms(1,2)] SubDao_wait_def
        SubDao_exit_def deferred_def init_locals_def)

theorem SubDao_nil_handle_panics_witness:
  "FindOne env_bus_down ''0xa'' (ObjectID ''c0'') = (None, order_1 DaoSubscribeSubmit)
   \<and> Status (order_1 DaoSubscribeSubmit) = DaoSubscribeSubmit
   \<and> NewSubscribe env_bus_down (Hex (SubID (order_1 DaoSubscribeSubmit)))
       = (None, Some (Failure ''bus''))
   \<and> SubDao env_bus_down ctx0 (ObjectID ''c0'') ''0xa'' =
       \<lparr>outcome = Panicked,
        events = [CallFindOne ''0xa'' (ObjectID ''c0''), CallNewSubscribe ''order-1'', Wait]\<rparr>"
proof -
  have h1: "FindOne env_bus_down ''0xa'' (ObjectID ''c0'') = (None, order_1 DaoSubscribeSubmit)"
    by (simp add: env_bus_down_def env_existing_def)
  have h2: "Status (order_1 DaoSubscribeSubmit) = DaoSubscribeSubmit"
    by (simp add: order_1_def)
  have h3: "NewSubscribe env_bus_down (Hex (SubID (order_1 DaoSubscribeSubmit)))
              = (None, Some (Failure ''bus''))"
    by (simp add: env_bus_down_def)
  from SubDao_nil_handle_panics [OF h1 h2 h3, of ctx0] h1 h2 h3 show ?thesis
    by (simp add: order_1_def)
qed

subsection \<open>Notifications of a resumed waiter\<close>

text \<open>
  C10. \<open>price\<close> and \<open>toAddress\<close> are assigned only in the callback of the order
  creation. So when a call that resumes a submitted order receives a status, and its
  lookups give records, the two payment notifications (lines 521 and 536) print the
  amount 0, and the third user lookup of the call, the one of line 543 for the owner
  notification, asks for the empty address.
\<close>

theorem SubDao_resumed_zero_price_empty_owner:
  assumes "FindOne env address daoID = (None, sub)"
      and "Status sub = DaoSubscribeSubmit"
      and "fst (NewSubscribe env (Hex (SubID sub))) = Some h"
      and "select_ready env h = ChReady (StatusVal v)"
      and "fst (GetDao env daoID) = Some d"
      and "fst (GetUserByAddress env 508 (Address d)) = Some a"
      and "fst (GetUserByAddress env 509 address) = Some u"
  shows "map (\<lambda>(n, r). (n, Content r))
           (take 2 (notify_requests (events (SubDao env ctx daoID address)))) =
           [(521, Sprintf ''Subscribe to %s dao successfully, pay %f FavT''
                    [S (Name d), F 0]),
            (536, Sprintf ''%s(%s) subscribed to your dao received %f FavT''
                    [S (Nickname u), S (UserAddress u), F 0])]
         \<and> take 3 (user_lookups (events (SubDao env ctx daoID address))) =
           [(508, Address d), (509, address), (543, '''')]"
proof -
  let ?s1 = "(init_locals env)\<lparr>oid := Hex (SubID sub),
               notify := fst (NewSubscribe env (Hex (SubID sub))),
               txID := TxID sub, status := DaoSubscribeSubmit, err := None\<rparr>"
  let ?s2 = "?s1\<lparr>status := v\<rparr>"
  have o: "SubDao_order env daoID address (init_locals env) =
             (Next, ?s1, [CallFindOne address daoID, CallNewSubscribe (Hex (SubID sub))])"
    by (rule order_found_submit [OF assms(1,2)])
  from dispatch_found [OF assms(5-7), of ?s2] obtain r1 r2 where
    d: "SubDao_dispatch env daoID address ?s2 =
          (Next,
           [CallGetDao daoID, CallGetUserByAddress 508 (Address d),
            CallGetUserByAddress 509 address, CallNotify 521 r1]
           @ log_subscription_err (Notify env 521 r1)
           @ [CallNotify 536 r2] @ log_subscription_err (Notify env 536 r2))"
    and r1: "Content r1 = Sprintf ''Subscribe to %s dao successfully, pay %f FavT''
                            [S (Name d), F (price ?s2)]"
    and r2: "Content r2 = Sprintf ''%s(%s) subscribed to your dao received %f FavT''
                            [S (Nickname u), S (UserAddress u), F (price ?s2)]"
    by blast
  from assms(3,4) d
  have w: "SubDao_wait env ctx daoID address ?s1 =
             (Next, ?s2,
              Wait # Received (StatusVal v) #
              [CallGetDao daoID, CallGetUserByAddress 508 (Address d),
               CallGetUserByAddress 509 address, CallNotify 521 r1]
              @ log_subscription_err (Notify env 521 r1)
              @ [CallNotify 536 r2] @ log_subscription_err (Notify env 536 r2))"
    by (simp add: SubDao_wait_def)
  have "err ?s2 = None" by simp
  from finish_first_lookup [OF this, of env address] obtain c3 s3 es3 where
    f: "SubDao_finish env address ?s2 = (c3, s3, CallGetUserByAddress 543 (toAddress ?s2) # es3)"
    by blast
  from finish_plain [OF f] have c3: "c3 \<noteq> Block" by auto
  from o w f c3
  have "events (SubDao env ctx daoID address) =
          [CallFindOne address daoID, CallNewSubscribe (Hex (SubID sub)),
           Wait, Received (StatusVal v),
           CallGetDao daoID, CallGetUserByAddress 508 (Address d),
           CallGetUserByAddress 509 address, CallNotify 521 r1]
          @ log_subscription_err (Notify env 521 r1)
          @ [CallNotify 536 r2] @ log_subscription_err (Notify env 536 r2)
          @ CallGetUserByAddress 543 (toAddress ?s2) # es3 @ deferred s3"
    by (simp add: SubDao_def SubDao_body_def SubDao_exit_def)
  with r1 r2 show ?thesis
    by (simp add: trace_append log_subscription_err_plain init_locals_def)
qed

theorem SubDao_resumed_zero_price_empty_owner_witness:
  "FindOne (env_existing DaoSubscribeSubmit) ''0xa'' (ObjectID ''c0'')
     = (None, order_1 DaoSubscribeSubmit)
   \<and> select_ready (env_existing DaoSubscribeSubmit) (Handle 1)
     = ChReady (StatusVal DaoSubscribeSuccess)
   \<and> Price dao_C = ''10000''
   \<and> map (\<lambda>(n, r). (n, Content r))
       (take 2 (notify_requests
          (events (SubDao (env_existing DaoSubscribeSubmit) ctx0 (ObjectID ''c0'') ''0xa'')))) =
       [(521, Sprintf ''Subscribe to %s dao successfully, pay %f FavT'' [S ''C'', F 0]),
        (536, Sprintf ''%s(%s) subscribed to your dao received %f FavT''
                [S ''nick-0xa'', S ''0xa'', F 0])]
   \<and> take 3 (user_lookups
       (events (SubDao (env_existing DaoSubscribeSubmit) ctx0 (ObjectID ''c0'') ''0xa''))) =
       [(508, ''0xowner''), (509, ''0xa''), (543, '''')]"
proof -
  have h1: "FindOne (env_existing DaoSubscribeSubmit) ''0xa'' (ObjectID ''c0'')
              = (None, order_1 DaoSubscribeSubmit)"
    by (simp add: env_existing_def)
  have h2: "Status (order_1 DaoSubscribeSubmit) = DaoSubscribeSubmit"
    by (simp add: order_1_def)
  have h3: "fst (NewSubscribe (env_existing DaoSubscribeSubmit)
                   (Hex (SubID (order_1 DaoSubscribeSubmit)))) = Some (Handle 1)"
    by (simp add: env_existing_def env_first_def)
  have h4: "select_ready (env_existing DaoSubscribeSubmit) (Handle 1)
              = ChReady (StatusVal DaoSubscribeSuccess)"
    by (simp add: env_existing_def env_first_def)
  have h5: "fst (GetDao (env_existing DaoSubscribeSubmit) (ObjectID ''c0'')) = Some dao_C"
    by (simp add: env_existing_def env_first_def)
  have h6: "fst (GetUserByAddress (env_existing DaoSubscribeSubmit) 508 (Address dao_C))
              = Some (user_of (Address dao_C))"
    by (simp add: env_existing_def env_first_def)
  have h7: "fst (GetUserByAddress (env_existing DaoSubscribeSubmit) 509 ''0xa'')
              = Some (user_of ''0xa'')"
    by (simp add: env_existing_def env_first_def)
  have d: "Address dao_C = ''0xowner''" "Name dao_C = ''C''" "Price dao_C = ''10000''"
    by (simp_all add: dao_C_def)
  have u: "Nickname (user_of ''0xa'') = ''nick-0xa''" "UserAddress (user_of ''0xa'') = ''0xa''"
    by (simp_all add: user_of_def)
  from SubDao_resumed_zero_price_empty_owner [OF h1 h2 h3 h4 h5 h6 h7, of ctx0] h1 h4 d u
  show ?thesis by simp
qed

end
